theory Spec2Isabelle
  imports Complex_Main
begin

section \<open>Frame filters of \<open>vip/var/filters.py\<close>\<close>

text \<open>
  The module filters 2-D frames: a centred Fourier transform and its inverse, a high-pass
  dispatcher, a Gaussian low-pass, wavelet denoising and a normalised Gaussian kernel.
  Floating-point numbers are read as real (and complex) numbers, so equalities below are
  the exact-arithmetic behaviour of the code.
\<close>

subsection \<open>Arrays and raised errors\<close>

text \<open>
  A numpy array is its shape and its elements in row-major order, as in a C-contiguous
  buffer. \<open>ndim\<close> is the number of axes.
\<close>

datatype 'a ndarray = NDArray (shape: "nat list") (data: "'a list")

definition ndim :: "'a ndarray \<Rightarrow> nat" where
  "ndim a = length (shape a)"

definition wf_array :: "'a ndarray \<Rightarrow> bool" where
  "wf_array a = (length (data a) = prod_list (shape a))"

text \<open>
  The exceptions the module and its libraries raise. \<open>NonFinite\<close> is not a raise: it marks
  a division by a floating-point zero, whose result (inf or nan) has no real number.
\<close>

datatype py_error =
    TypeError string
  | ValueError string
  | UnboundLocalError string
  | IndexError string
  | RuntimeError string
  | NotImplementedError string
  | NonFinite

text \<open>Sequencing of fallible steps: the first raise ends the computation.\<close>

definition bind_err :: "py_error + 'a \<Rightarrow> ('a \<Rightarrow> py_error + 'b) \<Rightarrow> py_error + 'b" where
  "bind_err m f = (case m of Inl e \<Rightarrow> Inl e | Inr v \<Rightarrow> f v)"

subsection \<open>The numpy operations the module uses\<close>

text \<open>A 2-D array given by its entry at row \<open>i\<close> and column \<open>j\<close>.\<close>

definition tabulate2 :: "nat \<Rightarrow> nat \<Rightarrow> (nat \<Rightarrow> nat \<Rightarrow> 'a) \<Rightarrow> 'a ndarray" where
  "tabulate2 r c f = NDArray [r, c] (concat (map (\<lambda>i. map (f i) [0..<c]) [0..<r]))"

text \<open>Entry \<open>[i, j]\<close> of row-major data with \<open>c\<close> columns.\<close>

definition item2 :: "nat \<Rightarrow> 'a list \<Rightarrow> nat \<Rightarrow> nat \<Rightarrow> 'a" where
  "item2 c xs i j = xs ! (i * c + j)"

text \<open>Element-wise operations on arrays of one shape, and a change of element type.\<close>

definition map_array :: "('a \<Rightarrow> 'b) \<Rightarrow> 'a ndarray \<Rightarrow> 'b ndarray" where
  "map_array f a = NDArray (shape a) (map f (data a))"

definition zip_array :: "('a \<Rightarrow> 'b \<Rightarrow> 'c) \<Rightarrow> 'a ndarray \<Rightarrow> 'b ndarray \<Rightarrow> py_error + 'c ndarray" where
  "zip_array f a b =
     (if shape a = shape b then Inr (NDArray (shape a) (map2 f (data a) (data b)))
      else Inl (ValueError ''operands could not be broadcast together''))"

definition np_abs :: "complex ndarray \<Rightarrow> real ndarray" where
  "np_abs a = map_array cmod a"

text \<open>
  \<open>a - b\<close> and \<open>a * b\<close> on arrays. The libraries return arrays of their input's shape, so
  only equal shapes meet here; stretching an axis of length one is not modelled.
\<close>

definition np_subtract :: "real ndarray \<Rightarrow> real ndarray \<Rightarrow> py_error + real ndarray" where
  "np_subtract a b = zip_array (\<lambda>u v. u - v) a b"

definition np_add :: "real ndarray \<Rightarrow> real ndarray \<Rightarrow> py_error + real ndarray" where
  "np_add a b = zip_array (\<lambda>u v. u + v) a b"

definition np_multiply :: "complex ndarray \<Rightarrow> real ndarray \<Rightarrow> py_error + complex ndarray" where
  "np_multiply a b = zip_array (\<lambda>z v. z * complex_of_real v) a b"

text \<open>
  Division of every element by one number. numpy does not raise on a zero divisor, it
  stores inf or nan; an empty array has nothing to divide.
\<close>

definition np_divide_scalar :: "real ndarray \<Rightarrow> real \<Rightarrow> py_error + real ndarray" where
  "np_divide_scalar a d =
     (if d = 0 \<and> data a \<noteq> [] then Inl NonFinite else Inr (map_array (\<lambda>v. v / d) a))"

text \<open>\<open>a.max()\<close>: the largest element; raises on an empty array.\<close>

definition np_max :: "real ndarray \<Rightarrow> py_error + real" where
  "np_max a =
     (case data a of
        [] \<Rightarrow> Inl (ValueError ''zero-size array to reduction operation maximum which has no identity'')
      | v # vs \<Rightarrow> Inr (fold max vs v))"

text \<open>
  \<open>np.linspace(start, stop, num)\<close>: \<open>num\<close> evenly spaced samples with both ends included;
  a single sample is \<open>start\<close>.
\<close>

definition np_linspace :: "real \<Rightarrow> real \<Rightarrow> nat \<Rightarrow> real list" where
  "np_linspace start stop num =
     (if num = 1 then [start]
      else map (\<lambda>i. start + real i * ((stop - start) / real (num - 1))) [0..<num])"

text \<open>
  \<open>xs[np.newaxis] + ys[:, np.newaxis]\<close> for 1-D \<open>xs\<close> and \<open>ys\<close>: a row of shape
  \<open>(1, len xs)\<close> plus a column of shape \<open>(len ys, 1)\<close> broadcast to \<open>(len ys, len xs)\<close>.
\<close>

definition add_row_column :: "real list \<Rightarrow> real list \<Rightarrow> real ndarray" where
  "add_row_column xs ys = tabulate2 (length ys) (length xs) (\<lambda>i j. xs ! j + ys ! i)"

text \<open>
  \<open>np.mgrid[a:b, c:d]\<close>: two integer arrays of shape \<open>(b - a, d - c)\<close>; the first holds the
  row coordinate, the second the column coordinate. A slice that stops before it starts
  asks for a negative length, which numpy refuses.
\<close>

definition np_mgrid :: "int \<Rightarrow> int \<Rightarrow> int \<Rightarrow> int \<Rightarrow> py_error + int ndarray \<times> int ndarray" where
  "np_mgrid a b c d =
     (if b < a \<or> d < c then Inl (ValueError ''negative dimensions are not allowed'')
      else
        (let xs = [a..b - 1]; ys = [c..d - 1]
         in Inr (tabulate2 (length xs) (length ys) (\<lambda>i j. xs ! i),
                 tabulate2 (length xs) (length ys) (\<lambda>i j. ys ! j))))"

text \<open>\<open>int(v)\<close> on a number truncates towards zero.\<close>

definition py_int :: "real \<Rightarrow> int" where
  "py_int v = (if 0 \<le> v then \<lfloor>v\<rfloor> else \<lceil>v\<rceil>)"

text \<open>
  \<open>np.fft.fft2\<close> and \<open>np.fft.ifft2\<close>: the discrete Fourier transform over the last two axes
  and its inverse, which divides by the number of elements of a block. numpy raises on
  fewer than two axes and on an empty transformed axis. With more than two axes every
  block of the last two axes, contiguous in row-major order, is transformed on its own.
\<close>

definition dft_sum :: "real \<Rightarrow> nat \<Rightarrow> nat \<Rightarrow> complex list \<Rightarrow> nat \<Rightarrow> nat \<Rightarrow> complex" where
  "dft_sum s r c xs k l =
     (\<Sum>m<r. \<Sum>n<c. item2 c xs m n *
        cis (s * 2 * pi * (real k * real m / real r)) *
        cis (s * 2 * pi * (real l * real n / real c)))"

definition blocks :: "nat \<Rightarrow> nat \<Rightarrow> 'a list \<Rightarrow> 'a list list" where
  "blocks count len xs = map (\<lambda>b. take len (drop (b * len) xs)) [0..<count]"

definition np_fft2 :: "complex ndarray \<Rightarrow> py_error + complex ndarray" where
  "np_fft2 a =
     (case shape a of
        [r, c] \<Rightarrow>
          if r = 0 \<or> c = 0 then Inl (ValueError ''Invalid number of FFT data points'')
          else Inr (tabulate2 r c (dft_sum (- 1) r c (data a)))
      | [] \<Rightarrow> Inl (IndexError ''tuple index out of range'')
      | [n] \<Rightarrow> Inl (IndexError ''tuple index out of range'')
      | sh \<Rightarrow>
          (let c = last sh; r = last (butlast sh); count = prod_list (butlast (butlast sh))
           in if r = 0 \<or> c = 0 then Inl (ValueError ''Invalid number of FFT data points'')
              else Inr (NDArray sh
                     (concat (map (\<lambda>xs. data (tabulate2 r c (dft_sum (- 1) r c xs)))
                                  (blocks count (r * c) (data a)))))))"

definition np_ifft2 :: "complex ndarray \<Rightarrow> py_error + complex ndarray" where
  "np_ifft2 a =
     (case shape a of
        [r, c] \<Rightarrow>
          if r = 0 \<or> c = 0 then Inl (ValueError ''Invalid number of FFT data points'')
          else Inr (tabulate2 r c (\<lambda>k l. dft_sum 1 r c (data a) k l / of_nat (r * c)))
      | [] \<Rightarrow> Inl (IndexError ''tuple index out of range'')
      | [n] \<Rightarrow> Inl (IndexError ''tuple index out of range'')
      | sh \<Rightarrow>
          (let c = last sh; r = last (butlast sh); count = prod_list (butlast (butlast sh))
           in if r = 0 \<or> c = 0 then Inl (ValueError ''Invalid number of FFT data points'')
              else Inr (NDArray sh
                     (concat (map (\<lambda>xs. data (tabulate2 r c
                                     (\<lambda>k l. dft_sum 1 r c xs k l / of_nat (r * c))))
                                  (blocks count (r * c) (data a)))))))"

text \<open>
  \<open>np.fft.fftshift\<close> rolls every axis of length \<open>n\<close> by \<open>n // 2\<close>, \<open>np.fft.ifftshift\<close> by
  \<open>- (n // 2)\<close>: the element at index \<open>i\<close> of the result is the one at index
  \<open>(i + n - n // 2) mod n\<close>, respectively \<open>(i + n // 2) mod n\<close>, of the argument, along
  every axis. The 2-D case is written out; for the other ranks the position in the
  row-major data is split into one index per axis and put together again.
\<close>

fun unravel :: "nat list \<Rightarrow> nat \<Rightarrow> nat list" where
  "unravel [] k = []"
| "unravel (n # ns) k = (k div prod_list ns) # unravel ns (k mod prod_list ns)"

fun ravel :: "nat list \<Rightarrow> nat list \<Rightarrow> nat" where
  "ravel (n # ns) (i # js) = i * prod_list ns + ravel ns js"
| "ravel _ _ = 0"

definition take_rolled :: "(nat \<Rightarrow> nat) \<Rightarrow> 'a ndarray \<Rightarrow> 'a ndarray" where
  "take_rolled from a =
     NDArray (shape a)
       (map (\<lambda>k. data a ! ravel (shape a)
                     (map2 (\<lambda>n i. (i + from n) mod n) (shape a) (unravel (shape a) k)))
            [0..<prod_list (shape a)])"

definition np_fftshift :: "'a ndarray \<Rightarrow> 'a ndarray" where
  "np_fftshift a =
     (case shape a of
        [r, c] \<Rightarrow> tabulate2 r c (\<lambda>i j. item2 c (data a) ((i + r - r div 2) mod r) ((j + c - c div 2) mod c))
      | _ \<Rightarrow> take_rolled (\<lambda>n. n - n div 2) a)"

definition np_ifftshift :: "'a ndarray \<Rightarrow> 'a ndarray" where
  "np_ifftshift a =
     (case shape a of
        [r, c] \<Rightarrow> tabulate2 r c (\<lambda>i j. item2 c (data a) ((i + r div 2) mod r) ((j + c div 2) mod c))
      | _ \<Rightarrow> take_rolled (\<lambda>n. n div 2) a)"

subsection \<open>The spectral transform\<close>

text \<open>\<open>fft(array)\<close>: \<open>np.fft.fftshift(np.fft.fft2(array))\<close>.\<close>

definition fft :: "complex ndarray \<Rightarrow> py_error + complex ndarray" where
  "fft array = bind_err (np_fft2 array) (\<lambda>t. Inr (np_fftshift t))"

text \<open>\<open>ifft(array)\<close>: \<open>np.abs(np.fft.ifft2(np.fft.ifftshift(array)))\<close>.\<close>

definition ifft :: "complex ndarray \<Rightarrow> py_error + real ndarray" where
  "ifft array = bind_err (np_ifft2 (np_ifftshift array)) (\<lambda>t. Inr (np_abs t))"


subsection \<open>External collaborators\<close>

text \<open>
  The filters come from scipy, astropy, PyWavelets and photutils, and \<open>frame_center\<close> from
  the sibling module \<open>shapes\<close>. They are parameters of the model. Each may raise. \<open>'w\<close> is
  the wavelet object, \<open>'k\<close> one entry of the coefficient list of \<open>wavedec2\<close>, \<open>'ap\<close> an
  aperture. \<open>aperture_photometry\<close> stands for the lookup of the \<open>aperture_sum\<close> column too:
  one aperture gives a table of one row, whose sum broadcasts as a number.
\<close>

record ('w, 'k, 'ap) extlib =
  convolve_fft :: "real ndarray \<Rightarrow> real ndarray \<Rightarrow> py_error + real ndarray"
  median_filter :: "real ndarray \<Rightarrow> int \<Rightarrow> string \<Rightarrow> py_error + real ndarray"
  gaussian_filter :: "real ndarray \<Rightarrow> real \<Rightarrow> nat \<Rightarrow> string \<Rightarrow> py_error + real ndarray"
  Gaussian2DKernel :: "real \<Rightarrow> py_error + real ndarray"
  wavedec2 :: "real ndarray \<Rightarrow> 'w \<Rightarrow> int \<Rightarrow> py_error + 'k list"
  thresholding_hard :: "'k \<Rightarrow> real \<Rightarrow> py_error + 'k"
  thresholding_soft :: "'k \<Rightarrow> real \<Rightarrow> py_error + 'k"
  waverec2 :: "'k list \<Rightarrow> 'w \<Rightarrow> py_error + real ndarray"
  frame_center :: "real ndarray \<Rightarrow> real \<times> real"
  CircularAperture :: "real \<times> real \<Rightarrow> real \<Rightarrow> 'ap"
  aperture_photometry :: "real ndarray \<Rightarrow> 'ap \<Rightarrow> py_error + real"

text \<open>
  \<open>astropy.stats.gaussian_fwhm_to_sigma\<close>: the reciprocal of \<open>2 * sqrt(2 * log 2)\<close>.
\<close>

definition gaussian_fwhm_to_sigma :: real where
  "gaussian_fwhm_to_sigma = 1 / (2 * sqrt (2 * ln 2))"

text \<open>Python 2 \<open>map\<close> over a list with a function that may raise.\<close>

fun map_err :: "('a \<Rightarrow> py_error + 'b) \<Rightarrow> 'a list \<Rightarrow> py_error + 'b list" where
  "map_err f [] = Inr []"
| "map_err f (x # xs) =
     bind_err (f x) (\<lambda>y. bind_err (map_err f xs) (\<lambda>ys. Inr (y # ys)))"

subsection \<open>The Gaussian low-pass filter\<close>

definition frame_filter_gaussian2d ::
  "('w, 'k, 'ap) extlib \<Rightarrow> real ndarray \<Rightarrow> real \<Rightarrow> string \<Rightarrow> py_error + real ndarray" where
  "frame_filter_gaussian2d E array size_fwhm mode =
     (if \<not> ndim array = 2 then Inl (TypeError ''Input array is not a frame or 2d array'')
      else if mode = ''conv'' then
        gaussian_filter E array (size_fwhm * gaussian_fwhm_to_sigma) 0 ''nearest''
      else if mode = ''convfft'' then
        bind_err (Gaussian2DKernel E (size_fwhm * gaussian_fwhm_to_sigma))
          (\<lambda>gaus. convolve_fft E array gaus)
      else Inl (TypeError ''Mode not recognized''))"

subsection \<open>The high-pass dispatcher\<close>

definition kernel3 :: "real ndarray" where
  "kernel3 = NDArray [3, 3]
     [- 1, - 1, - 1,
      - 1,   8, - 1,
      - 1, - 1, - 1]"

definition kernel5 :: "real ndarray" where
  "kernel5 = NDArray [5, 5]
     [- 1, - 1, - 1, - 1, - 1,
      - 1,   1,   2,   1, - 1,
      - 1,   2,   4,   2, - 1,
      - 1,   1,   2,   1, - 1,
      - 1, - 1, - 1, - 1, - 1]"

text \<open>
  The body of the \<open>fourier-butter\<close> branch up to the filter \<open>filt\<close>, for an array of shape
  \<open>(rows, cols)\<close>.
\<close>

definition butter_filt :: "nat \<Rightarrow> nat \<Rightarrow> real ndarray" where
  "butter_filt rows cols =
     (let f = 0.5;
          pxd = 2;
          n = 100;
          x = map (\<lambda>v. v * real cols / pxd) (np_linspace (- 0.5) 0.5 cols);
          y = map (\<lambda>v. v * real rows / pxd) (np_linspace (- 0.5) 0.5 rows);
          radius = map_array sqrt (add_row_column (map (\<lambda>v. v ^ 2) x) (map (\<lambda>v. v ^ 2) y));
          filt = map_array (\<lambda>v. 1 / (1.0 + (v / f) ^ (2 * n))) radius
      in map_array (\<lambda>v. 1 - v) filt)"

text \<open>
  \<open>frame_filter_highpass(array, mode, median_size=5, kernel_size=5, fwhm_size=5)\<close>. In the
  \<open>kernel-conv\<close> branch the local \<open>kernel\<close> is bound only for sizes 3 and 5; reading it
  unbound raises \<open>UnboundLocalError\<close>.
\<close>

definition frame_filter_highpass ::
  "('w, 'k, 'ap) extlib \<Rightarrow> real ndarray \<Rightarrow> string \<Rightarrow> int \<Rightarrow> int \<Rightarrow> real \<Rightarrow> py_error + real ndarray" where
  "frame_filter_highpass E array mode median_size kernel_size fwhm_size =
     (if \<not> ndim array = 2 then Inl (TypeError ''Input array is not a frame or 2d array'')
      else if mode = ''kernel-conv'' then
        (let kernel = (if kernel_size = 3 then Some kernel3
                       else if kernel_size = 5 then Some kernel5
                       else None)
         in case kernel of
              None \<Rightarrow> Inl (UnboundLocalError ''kernel'')
            | Some k \<Rightarrow> convolve_fft E array k)
      else if mode = ''median-subt'' then
        bind_err (median_filter E array median_size ''nearest'')
          (\<lambda>medianed. np_subtract array medianed)
      else if mode = ''gauss-subt'' then
        bind_err (frame_filter_gaussian2d E array fwhm_size ''conv'')
          (\<lambda>gaussed. np_subtract array gaussed)
      else if mode = ''fourier-butter'' then
        (case shape array of
           [rows, cols] \<Rightarrow>
             bind_err (fft (map_array complex_of_real array))
               (\<lambda>array_fft. bind_err (np_multiply array_fft (butter_filt rows cols))
                 (\<lambda>fft_new. ifft fft_new))
         | _ \<Rightarrow> Inl (ValueError ''wrong number of values to unpack''))
      else Inl (TypeError ''Mode not recognized''))"

subsection \<open>Wavelet denoising\<close>

definition wavelet_denoise ::
  "('w, 'k, 'ap) extlib \<Rightarrow> real ndarray \<Rightarrow> 'w \<Rightarrow> real \<Rightarrow> int \<Rightarrow> string \<Rightarrow> py_error + real ndarray" where
  "wavelet_denoise E array wavelet threshold levels thrmode =
     (if \<not> ndim array = 2 then Inl (TypeError ''Input array is not a frame or 2d array'')
      else
        bind_err (wavedec2 E array wavelet levels)
          (\<lambda>WC.
             if thrmode = ''hard'' then
               bind_err (map_err (\<lambda>x. thresholding_hard E x threshold) WC)
                 (\<lambda>NWC. waverec2 E NWC wavelet)
             else if thrmode = ''soft'' then
               bind_err (map_err (\<lambda>x. thresholding_soft E x threshold) WC)
                 (\<lambda>NWC. waverec2 E NWC wavelet)
             else Inl (ValueError ''Threshold mode not recognized'')))"

subsection \<open>The Gaussian kernel\<close>

text \<open>
  \<open>gaussian_kernel(size, size_y=None)\<close>. \<open>not size_y\<close> holds for \<open>None\<close> and for zero.
\<close>

definition gaussian_kernel ::
  "('w, 'k, 'ap) extlib \<Rightarrow> real \<Rightarrow> real option \<Rightarrow> py_error + real ndarray" where
  "gaussian_kernel E size0 size_y0 =
     (let size = py_int size0;
          size_y = (case size_y0 of
                      None \<Rightarrow> size
                    | Some v \<Rightarrow> if v = 0 then size else py_int v)
      in bind_err (np_mgrid (- size) (size + 1) (- size_y) (size_y + 1))
          (\<lambda>(x, y).
           bind_err (np_divide_scalar (map_array (\<lambda>v. real_of_int (v ^ 2)) x) (real_of_int size))
          (\<lambda>xx. bind_err (np_divide_scalar (map_array (\<lambda>v. real_of_int (v ^ 2)) y) (real_of_int size_y))
          (\<lambda>yy. bind_err (np_add xx yy)
          (\<lambda>e. let g = map_array (\<lambda>v. exp (- v)) e;
                    fwhm = size;
                    fwhm_aper = CircularAperture E (frame_center E g) (real_of_int fwhm / 2)
                in bind_err (aperture_photometry E g fwhm_aper)
                    (\<lambda>aperture_sum. bind_err (np_divide_scalar g aperture_sum)
                    (\<lambda>g_norm. bind_err (np_max g_norm)
                    (\<lambda>m. np_divide_scalar g_norm m))))))))"

subsection \<open>An instance of the collaborators\<close>

text \<open>
  A small instance of the external libraries, on which the operations can be run.

  The median filter is a direct one for 2-D arrays: the window of \<open>sz\<close> x \<open>sz\<close> cells
  around each cell, read with indices clamped to the array (\<open>nearest\<close>), sorted, and its
  middle element taken.
\<close>

definition clamp_index :: "nat \<Rightarrow> int \<Rightarrow> nat" where
  "clamp_index n i = nat (max 0 (min (int n - 1) i))"

definition window_offsets :: "nat \<Rightarrow> int list" where
  "window_offsets s = map (\<lambda>k. int k - int (s div 2)) [0..<s]"

definition window_nearest :: "nat \<Rightarrow> nat \<Rightarrow> real list \<Rightarrow> nat \<Rightarrow> nat \<Rightarrow> nat \<Rightarrow> real list" where
  "window_nearest r c xs s i j =
     concat (map (\<lambda>di. map (\<lambda>dj. item2 c xs (clamp_index r (int i + di)) (clamp_index c (int j + dj)))
                          (window_offsets s))
                 (window_offsets s))"

definition direct_median_filter :: "real ndarray \<Rightarrow> int \<Rightarrow> string \<Rightarrow> py_error + real ndarray" where
  "direct_median_filter a sz mode =
     (if mode \<noteq> ''nearest'' then Inl (NotImplementedError ''boundary mode'')
      else if sz \<le> 0 then Inl (RuntimeError ''incorrect filter size'')
      else case shape a of
             [r, c] \<Rightarrow>
               Inr (tabulate2 r c (\<lambda>i j. sort (window_nearest r c (data a) (nat sz) i j)
                                           ! ((nat sz * nat sz) div 2)))
           | _ \<Rightarrow> Inl (NotImplementedError ''rank''))"

text \<open>
  The wavelet transform of the instance is the one of level 0, whose coefficient list is
  the array alone; a negative level is refused, as PyWavelets does. The thresholdings
  follow \<open>pywt.thresholding\<close>: both test \<open>v < t\<close> and \<open>v > - t\<close>; hard thresholding zeroes
  the values that pass both tests, soft thresholding also adds \<open>t\<close> where the first holds
  and subtracts \<open>t\<close> where the second holds.
\<close>

definition level0_wavedec2 :: "real ndarray \<Rightarrow> unit \<Rightarrow> int \<Rightarrow> py_error + real ndarray list" where
  "level0_wavedec2 a w levels =
     (if levels < 0 then Inl (ValueError ''Level value is too low'')
      else if levels = 0 then Inr [a]
      else Inl (NotImplementedError ''levels above 0''))"

definition level0_waverec2 :: "real ndarray list \<Rightarrow> unit \<Rightarrow> py_error + real ndarray" where
  "level0_waverec2 coeffs w =
     (case coeffs of
        [a] \<Rightarrow> Inr a
      | _ \<Rightarrow> Inl (ValueError ''Coefficient list too short or too long''))"

definition hard_threshold :: "real ndarray \<Rightarrow> real \<Rightarrow> py_error + real ndarray" where
  "hard_threshold a t = Inr (map_array (\<lambda>v. if v < t \<and> - t < v then 0 else v) a)"

definition soft_threshold :: "real ndarray \<Rightarrow> real \<Rightarrow> py_error + real ndarray" where
  "soft_threshold a t =
     Inr (map_array
            (\<lambda>v. let cond_less = v < t;
                     cond_greater = - t < v;
                     d1 = (if cond_less \<and> cond_greater then 0 else v);
                     d2 = (if cond_less then d1 + t else d1)
                 in if cond_greater then d2 - t else d2) a)"

text \<open>
  Modelled from the spec: \<open>frame_center\<close> of the sibling module \<open>shapes\<close>, whose source is
  not at hand, "given a 2-D array, returns its geometric center coordinates". The
  coordinates are taken in the order of the axes, row first, and in pixel units, the
  first pixel having its centre at 0.
\<close>

definition geometric_center :: "real ndarray \<Rightarrow> real \<times> real" where
  "geometric_center a =
     (case shape a of
        [r, c] \<Rightarrow> (real r / 2 - 1 / 2, real c / 2 - 1 / 2)
      | _ \<Rightarrow> (0, 0))"

text \<open>
  The photometry of the instance reads an aperture as photutils does, its position as
  \<open>(x, y)\<close> with \<open>x\<close> along the columns, and sums the pixels whose centre lies in the circle
  (photutils' method \<open>center\<close>). The convolutions and the Gaussian filter of the instance hand
  back their input.
\<close>

definition center_photometry :: "real ndarray \<Rightarrow> (real \<times> real) \<times> real \<Rightarrow> py_error + real" where
  "center_photometry g aperture =
     (case aperture of
        ((x, y), radius) \<Rightarrow>
          (case shape g of
             [rows, cols] \<Rightarrow>
               Inr (\<Sum>i<rows. \<Sum>j<cols.
                      if (real j - x)\<^sup>2 + (real i - y)\<^sup>2 \<le> radius\<^sup>2
                      then item2 cols (data g) i j else 0)
           | _ \<Rightarrow> Inl (ValueError ''data must be a 2D array'')))"

definition instance_lib :: "(unit, real ndarray, (real \<times> real) \<times> real) extlib" where
  "instance_lib =
     \<lparr> convolve_fft = (\<lambda>a k. Inr a),
       median_filter = direct_median_filter,
       gaussian_filter = (\<lambda>a sigma order mode. Inr a),
       Gaussian2DKernel = (\<lambda>stddev. Inr (NDArray [1, 1] [1])),
       wavedec2 = level0_wavedec2,
       thresholding_hard = hard_threshold,
       thresholding_soft = soft_threshold,
       waverec2 = level0_waverec2,
       frame_center = geometric_center,
       CircularAperture = (\<lambda>position r. (position, r)),
       aperture_photometry = center_photometry \<rparr>"

subsection \<open>The filters as the specification words them\<close>

text \<open>
  The Butterworth high-pass transfer function: \<open>1 - 1 / (1 + (radius / f) ^ (2 n))\<close> with
  \<open>f = 0.5\<close> and \<open>n = 100\<close>, where \<open>radius\<close> is the Euclidean distance from the origin of the
  normalised frequency grid. Along an axis of \<open>num\<close> samples the grid runs evenly from
  \<open>- 0.5\<close> to \<open>0.5\<close>, scaled by \<open>num / pxd\<close> with \<open>pxd = 2.0\<close>.
\<close>

definition grid_coordinate :: "nat \<Rightarrow> nat \<Rightarrow> real" where
  "grid_coordinate num i =
     (if num = 1 then - (1 / 2) else - (1 / 2) + real i / real (num - 1)) * real num / 2"

definition butterworth_highpass :: "nat \<Rightarrow> nat \<Rightarrow> nat \<Rightarrow> nat \<Rightarrow> real" where
  "butterworth_highpass rows cols i j =
     1 - 1 / (1 + (sqrt ((grid_coordinate cols j)\<^sup>2 + (grid_coordinate rows i)\<^sup>2) / (1 / 2)) ^ 200)"

text \<open>
  The unnormalised Gaussian kernel: on the integer grid \<open>[- sx, sx] x [- sy, sy]\<close>, both
  ends included, the value \<open>exp (- (x\<^sup>2 / sx + y\<^sup>2 / sy))\<close>.
\<close>

definition gaussian_grid :: "int \<Rightarrow> int \<Rightarrow> real ndarray" where
  "gaussian_grid sx sy =
     tabulate2 (nat (2 * sx + 1)) (nat (2 * sy + 1))
       (\<lambda>i j. exp (- ((real_of_int (int i - sx))\<^sup>2 / real_of_int sx
                       + (real_of_int (int j - sy))\<^sup>2 / real_of_int sy)))"

subsection \<open>The operations over a store of objects\<close>

text \<open>
  To follow which objects a call touches, the four public operations are written once more
  over a store: arrays live at addresses, an operation receives the addresses of its array
  arguments and returns the address of its result. Here the objects are opaque (\<open>'v\<close>) and
  only their identity is followed, not their elements. Every numpy expression and every
  library call of the source is a step that may change the store in any way; what the
  steps are assumed to do is said by \<open>nonmutating\<close> below.
\<close>

type_synonym addr = nat

type_synonym 'v store = "addr \<Rightarrow> 'v option"

type_synonym ('v, 'a) action = "'v store \<Rightarrow> 'v store \<times> (py_error + 'a)"

definition unit_action :: "'a \<Rightarrow> ('v, 'a) action" where
  "unit_action x = (\<lambda>h. (h, Inr x))"

definition raise_action :: "py_error \<Rightarrow> ('v, 'a) action" where
  "raise_action e = (\<lambda>h. (h, Inl e))"

definition then_action :: "('v, 'a) action \<Rightarrow> ('a \<Rightarrow> ('v, 'b) action) \<Rightarrow> ('v, 'b) action" where
  "then_action p f =
     (\<lambda>h. case p h of
            (h1, Inl e) \<Rightarrow> (h1, Inl e)
          | (h1, Inr x) \<Rightarrow> f x h1)"

fun map_action :: "('a \<Rightarrow> ('v, 'b) action) \<Rightarrow> 'a list \<Rightarrow> ('v, 'b list) action" where
  "map_action f [] = unit_action []"
| "map_action f (x # xs) =
     then_action (f x) (\<lambda>y. then_action (map_action f xs) (\<lambda>ys. unit_action (y # ys)))"

text \<open>
  The steps. \<open>np_create name ns\<close> builds an array from the numbers \<open>ns\<close> alone (the kernel
  literals, the Butterworth filter from \<open>rows\<close> and \<open>cols\<close>, the Gaussian grid from the two
  sizes); \<open>np_unary\<close>, \<open>np_binary\<close> and \<open>np_scalar\<close> are numpy functions and operators on
  one array, two arrays, an array and a number; \<open>np_reduce\<close> reads one number off an array.
  The others are the library calls under their names in the source.
\<close>

record ('v, 'w) steps =
  obj_ndim :: "'v \<Rightarrow> nat"
  obj_shape :: "'v \<Rightarrow> nat list"
  np_create :: "string \<Rightarrow> int list \<Rightarrow> ('v, addr) action"
  np_unary :: "string \<Rightarrow> addr \<Rightarrow> ('v, addr) action"
  np_binary :: "string \<Rightarrow> addr \<Rightarrow> addr \<Rightarrow> ('v, addr) action"
  np_scalar :: "string \<Rightarrow> addr \<Rightarrow> real \<Rightarrow> ('v, addr) action"
  np_reduce :: "string \<Rightarrow> addr \<Rightarrow> ('v, real) action"
  st_convolve_fft :: "addr \<Rightarrow> addr \<Rightarrow> ('v, addr) action"
  st_median_filter :: "addr \<Rightarrow> int \<Rightarrow> string \<Rightarrow> ('v, addr) action"
  st_gaussian_filter :: "addr \<Rightarrow> real \<Rightarrow> nat \<Rightarrow> string \<Rightarrow> ('v, addr) action"
  st_Gaussian2DKernel :: "real \<Rightarrow> ('v, addr) action"
  st_wavedec2 :: "addr \<Rightarrow> 'w \<Rightarrow> int \<Rightarrow> ('v, addr list) action"
  st_thresholding_hard :: "addr \<Rightarrow> real \<Rightarrow> ('v, addr) action"
  st_thresholding_soft :: "addr \<Rightarrow> real \<Rightarrow> ('v, addr) action"
  st_waverec2 :: "addr list \<Rightarrow> 'w \<Rightarrow> ('v, addr) action"
  st_frame_center :: "addr \<Rightarrow> ('v, real \<times> real) action"
  st_aperture_photometry :: "addr \<Rightarrow> real \<times> real \<Rightarrow> real \<Rightarrow> ('v, real) action"

text \<open>Reading \<open>array.ndim\<close> and \<open>array.shape\<close> does not change the store.\<close>

definition read_attr :: "('v \<Rightarrow> 'a) \<Rightarrow> addr \<Rightarrow> ('v, 'a) action" where
  "read_attr attr array =
     (\<lambda>h. case h array of
            None \<Rightarrow> (h, Inl (RuntimeError ''no object at this address''))
          | Some v \<Rightarrow> (h, Inr (attr v)))"

definition st_fft :: "('v, 'w) steps \<Rightarrow> addr \<Rightarrow> ('v, addr) action" where
  "st_fft P array =
     then_action (np_unary P ''fft2'' array) (\<lambda>t. np_unary P ''fftshift'' t)"

definition st_ifft :: "('v, 'w) steps \<Rightarrow> addr \<Rightarrow> ('v, addr) action" where
  "st_ifft P array =
     then_action (np_unary P ''ifftshift'' array)
       (\<lambda>s. then_action (np_unary P ''ifft2'' s) (\<lambda>t. np_unary P ''abs'' t))"

definition st_frame_filter_gaussian2d ::
  "('v, 'w) steps \<Rightarrow> addr \<Rightarrow> real \<Rightarrow> string \<Rightarrow> ('v, addr) action" where
  "st_frame_filter_gaussian2d P array size_fwhm mode =
     then_action (read_attr (obj_ndim P) array)
       (\<lambda>nd.
          if \<not> nd = 2 then raise_action (TypeError ''Input array is not a frame or 2d array'')
          else if mode = ''conv'' then
            st_gaussian_filter P array (size_fwhm * gaussian_fwhm_to_sigma) 0 ''nearest''
          else if mode = ''convfft'' then
            then_action (st_Gaussian2DKernel P (size_fwhm * gaussian_fwhm_to_sigma))
              (\<lambda>gaus. st_convolve_fft P array gaus)
          else raise_action (TypeError ''Mode not recognized''))"

definition st_frame_filter_highpass ::
  "('v, 'w) steps \<Rightarrow> addr \<Rightarrow> string \<Rightarrow> int \<Rightarrow> int \<Rightarrow> real \<Rightarrow> ('v, addr) action" where
  "st_frame_filter_highpass P array mode median_size kernel_size fwhm_size =
     then_action (read_attr (obj_ndim P) array)
       (\<lambda>nd.
          if \<not> nd = 2 then raise_action (TypeError ''Input array is not a frame or 2d array'')
          else if mode = ''kernel-conv'' then
            then_action (np_create P ''kernel3'' [])
              (\<lambda>k3. then_action (np_create P ''kernel5'' [])
              (\<lambda>k5. case (if kernel_size = 3 then Some k3
                           else if kernel_size = 5 then Some k5
                           else None) of
                        None \<Rightarrow> raise_action (UnboundLocalError ''kernel'')
                      | Some k \<Rightarrow> st_convolve_fft P array k))
          else if mode = ''median-subt'' then
            then_action (st_median_filter P array median_size ''nearest'')
              (\<lambda>medianed. np_binary P ''subtract'' array medianed)
          else if mode = ''gauss-subt'' then
            then_action (st_frame_filter_gaussian2d P array fwhm_size ''conv'')
              (\<lambda>gaussed. np_binary P ''subtract'' array gaussed)
          else if mode = ''fourier-butter'' then
            then_action (read_attr (obj_shape P) array)
              (\<lambda>sh. case sh of
                       [rows, cols] \<Rightarrow>
                         then_action (np_create P ''filt'' [int rows, int cols])
                           (\<lambda>filt. then_action (st_fft P array)
                           (\<lambda>array_fft. then_action (np_binary P ''multiply'' array_fft filt)
                           (\<lambda>fft_new. st_ifft P fft_new)))
                     | _ \<Rightarrow> raise_action (ValueError ''wrong number of values to unpack''))
          else raise_action (TypeError ''Mode not recognized''))"

definition st_wavelet_denoise ::
  "('v, 'w) steps \<Rightarrow> addr \<Rightarrow> 'w \<Rightarrow> real \<Rightarrow> int \<Rightarrow> string \<Rightarrow> ('v, addr) action" where
  "st_wavelet_denoise P array wavelet threshold levels thrmode =
     then_action (read_attr (obj_ndim P) array)
       (\<lambda>nd.
          if \<not> nd = 2 then raise_action (TypeError ''Input array is not a frame or 2d array'')
          else
            then_action (st_wavedec2 P array wavelet levels)
              (\<lambda>WC.
                 if thrmode = ''hard'' then
                   then_action (map_action (\<lambda>x. st_thresholding_hard P x threshold) WC)
                     (\<lambda>NWC. st_waverec2 P NWC wavelet)
                 else if thrmode = ''soft'' then
                   then_action (map_action (\<lambda>x. st_thresholding_soft P x threshold) WC)
                     (\<lambda>NWC. st_waverec2 P NWC wavelet)
                 else raise_action (ValueError ''Threshold mode not recognized'')))"

definition st_gaussian_kernel ::
  "('v, 'w) steps \<Rightarrow> real \<Rightarrow> real option \<Rightarrow> ('v, addr) action" where
  "st_gaussian_kernel P size0 size_y0 =
     (let size = py_int size0;
          size_y = (case size_y0 of
                      None \<Rightarrow> size
                    | Some v \<Rightarrow> if v = 0 then size else py_int v)
      in then_action (np_create P ''g'' [size, size_y])
          (\<lambda>g. then_action (st_frame_center P g)
          (\<lambda>center. then_action (st_aperture_photometry P g center (real_of_int size / 2))
          (\<lambda>aperture_sum. then_action (np_scalar P ''divide'' g aperture_sum)
          (\<lambda>g_norm. then_action (np_reduce P ''max'' g_norm)
          (\<lambda>m. np_scalar P ''divide'' g_norm m))))))"

text \<open>
  A step \<open>keeps\<close> the store when every object that was there before is there, unchanged,
  after it. It \<open>allocates\<close> when moreover the address it returns was not in use before and
  holds an object after; \<open>allocates_all\<close> is the same for a list of returned addresses. A
  reconstruction \<open>rebuilds\<close> from a coefficient list when it keeps the store and returns
  a new object or one of the coefficients (as PyWavelets does when there is no detail
  level). A library is \<open>nonmutating\<close> when its steps that return an array allocate it, the
  reconstruction rebuilds, and its other steps keep the store: what numpy, scipy, astropy,
  PyWavelets and photutils document for the calls made here. The decomposition is only
  asked to keep the store: its coefficients may be views of its input.
\<close>

definition keeps :: "('v, 'a) action \<Rightarrow> bool" where
  "keeps p = (\<forall>h h' r. p h = (h', r) \<longrightarrow> (\<forall>a \<in> dom h. h' a = h a))"

definition allocates :: "('v, addr) action \<Rightarrow> bool" where
  "allocates p =
     (\<forall>h h' r. p h = (h', r) \<longrightarrow>
        (\<forall>a \<in> dom h. h' a = h a) \<and> (\<forall>b. r = Inr b \<longrightarrow> b \<notin> dom h \<and> b \<in> dom h'))"

definition allocates_all :: "('v, addr list) action \<Rightarrow> bool" where
  "allocates_all p =
     (\<forall>h h' r. p h = (h', r) \<longrightarrow>
        (\<forall>a \<in> dom h. h' a = h a)
        \<and> (\<forall>bs. r = Inr bs \<longrightarrow> (\<forall>b \<in> set bs. b \<notin> dom h \<and> b \<in> dom h')))"

definition rebuilds :: "addr list \<Rightarrow> ('v, addr) action \<Rightarrow> bool" where
  "rebuilds coeffs p =
     (\<forall>h h' r. p h = (h', r) \<longrightarrow>
        (\<forall>a \<in> dom h. h' a = h a)
        \<and> (\<forall>b. r = Inr b \<longrightarrow> (b \<notin> dom h \<and> b \<in> dom h') \<or> b \<in> set coeffs))"

definition nonmutating :: "('v, 'w) steps \<Rightarrow> bool" where
  "nonmutating P =
     ((\<forall>name ns. allocates (np_create P name ns))
      \<and> (\<forall>name a. allocates (np_unary P name a))
      \<and> (\<forall>name a b. allocates (np_binary P name a b))
      \<and> (\<forall>name a x. allocates (np_scalar P name a x))
      \<and> (\<forall>name a. keeps (np_reduce P name a))
      \<and> (\<forall>a k. allocates (st_convolve_fft P a k))
      \<and> (\<forall>a n mode. allocates (st_median_filter P a n mode))
      \<and> (\<forall>a sigma order mode. allocates (st_gaussian_filter P a sigma order mode))
      \<and> (\<forall>stddev. allocates (st_Gaussian2DKernel P stddev))
      \<and> (\<forall>a w levels. keeps (st_wavedec2 P a w levels))
      \<and> (\<forall>a t. allocates (st_thresholding_hard P a t))
      \<and> (\<forall>a t. allocates (st_thresholding_soft P a t))
      \<and> (\<forall>coeffs w. rebuilds coeffs (st_waverec2 P coeffs w))
      \<and> (\<forall>a. keeps (st_frame_center P a))
      \<and> (\<forall>a c r. keeps (st_aperture_photometry P a c r)))"

text \<open>
  An instance of the steps: an object is the number of axes of an array, and every step
  that returns an array puts a 2-D one at the first address above those in use. The wavelet
  transform is the one of level 0: the coefficient list of an array is the array itself,
  and the reconstruction hands back the single coefficient.
\<close>

definition new_object :: "nat \<Rightarrow> (nat, addr) action" where
  "new_object v =
     (\<lambda>h. if finite (dom h)
           then (let b = (if dom h = {} then 0 else Suc (Max (dom h))) in (h(b \<mapsto> v), Inr b))
           else (h, Inl (RuntimeError ''out of memory'')))"

definition instance_steps :: "(nat, unit) steps" where
  "instance_steps =
     \<lparr> obj_ndim = (\<lambda>v. v),
       obj_shape = (\<lambda>v. replicate v 1),
       np_create = (\<lambda>name ns. new_object 2),
       np_unary = (\<lambda>name a. new_object 2),
       np_binary = (\<lambda>name a b. new_object 2),
       np_scalar = (\<lambda>name a x. new_object 2),
       np_reduce = (\<lambda>name a. unit_action 1),
       st_convolve_fft = (\<lambda>a k. new_object 2),
       st_median_filter = (\<lambda>a n mode. new_object 2),
       st_gaussian_filter = (\<lambda>a sigma order mode. new_object 2),
       st_Gaussian2DKernel = (\<lambda>stddev. new_object 2),
       st_wavedec2 = (\<lambda>a w levels.
          if levels = 0 then unit_action [a]
          else raise_action (ValueError ''Level value is out of range'')),
       st_thresholding_hard = (\<lambda>a t. new_object 2),
       st_thresholding_soft = (\<lambda>a t. new_object 2),
       st_waverec2 = (\<lambda>coeffs w.
          case coeffs of
            [c] \<Rightarrow> unit_action c
          | _ \<Rightarrow> raise_action (ValueError ''Coefficient list too short or too long'')),
       st_frame_center = (\<lambda>a. unit_action (1 / 2, 1 / 2)),
       st_aperture_photometry = (\<lambda>a c r. unit_action 1) \<rparr>"

section \<open>Properties\<close>

subsection \<open>Row-major indexing\<close>

lemma length_concat_rows: "length (concat (map (\<lambda>i. map (f i) [0..<c]) [0..<r])) = r * c"
  by (induction r) simp_all

lemma nth_concat_rows:
  "i < r \<Longrightarrow> j < c \<Longrightarrow> concat (map (\<lambda>i. map (f i) [0..<c]) [0..<r]) ! (i * c + j) = f i j"
proof (induction r)
  case 0
  then show ?case by simp
next
  case (Suc r)
  show ?case
  proof (cases "i < r")
    case True
    then have "Suc i * c \<le> r * c"
      by (intro mult_le_mono1) simp
    then have "i * c + j < r * c"
      using Suc.prems(2) by simp
    then show ?thesis using Suc True by (simp add: nth_append length_concat_rows)
  next
    case False
    then have "i = r" using Suc.prems by simp
    then show ?thesis using Suc.prems by (simp add: nth_append length_concat_rows)
  qed
qed

lemma item2_tabulate2:
  "i < r \<Longrightarrow> j < c \<Longrightarrow> item2 c (data (tabulate2 r c f)) i j = f i j"
  by (simp add: item2_def tabulate2_def nth_concat_rows)

lemma tabulate2_cong:
  assumes "\<And>i j. i < r \<Longrightarrow> j < c \<Longrightarrow> f i j = g i j"
  shows "tabulate2 r c f = tabulate2 r c g"
proof -
  have "map (\<lambda>i. map (f i) [0..<c]) [0..<r] = map (\<lambda>i. map (g i) [0..<c]) [0..<r]"
    using assms by (intro map_cong refl) simp_all
  then show ?thesis by (simp only: tabulate2_def)
qed

lemma tabulate2_item2:
  assumes "length xs = r * c"
  shows "tabulate2 r c (item2 c xs) = NDArray [r, c] xs"
proof -
  have "concat (map (\<lambda>i. map (item2 c xs i) [0..<c]) [0..<r]) = xs"
  proof (rule nth_equalityI)
    show "length (concat (map (\<lambda>i. map (item2 c xs i) [0..<c]) [0..<r])) = length xs"
      using assms by (simp add: length_concat_rows)
  next
    fix k assume "k < length (concat (map (\<lambda>i. map (item2 c xs i) [0..<c]) [0..<r]))"
    then have k: "k < r * c" by (simp add: length_concat_rows)
    then have c: "0 < c" by (cases c) simp_all
    have "k div c < r" using k c by (simp add: less_mult_imp_div_less)
    moreover have "k mod c < c" using c by simp
    ultimately have "concat (map (\<lambda>i. map (item2 c xs i) [0..<c]) [0..<r]) ! (k div c * c + k mod c)
        = item2 c xs (k div c) (k mod c)"
      by (rule nth_concat_rows)
    then show "concat (map (\<lambda>i. map (item2 c xs i) [0..<c]) [0..<r]) ! k = xs ! k"
      by (simp add: item2_def)
  qed
  then show ?thesis by (simp add: tabulate2_def)
qed


subsection \<open>The discrete Fourier transform and its inverse\<close>

text \<open>
  The sum of the \<open>r\<close>-th roots of unity picked by two indices below \<open>r\<close> is \<open>r\<close> when the
  indices agree and 0 otherwise; hence the inverse transform undoes the transform.
\<close>

lemma unit_root_sum:
  assumes "m < r" "m' < r"
  shows "(\<Sum>k<r. cis (- 1 * 2 * pi * (real k * real m / real r)) *
                  cis (1 * 2 * pi * (real m' * real k / real r)))
         = (if m = m' then of_nat r else 0)"
proof -
  define z where "z = cis (2 * pi * ((real m' - real m) / real r))"
  have r: "0 < r" using assms by simp
  have tm: "cis (- 1 * 2 * pi * (real k * real m / real r)) *
              cis (1 * 2 * pi * (real m' * real k / real r)) = z ^ k" for k
  proof -
    have "- 1 * 2 * pi * (real k * real m / real r) + 1 * 2 * pi * (real m' * real k / real r)
          = real k * (2 * pi * ((real m' - real m) / real r))"
      by (simp add: algebra_simps diff_divide_distrib)
    then show ?thesis by (simp only: z_def cis_mult DeMoivre)
  qed
  have zr: "z ^ r = 1"
  proof -
    have "real r * (2 * pi * ((real m' - real m) / real r)) = 2 * pi * (real m' - real m)"
      using r by simp
    moreover have "real m' - real m \<in> \<int>" by simp
    ultimately show ?thesis by (simp only: z_def DeMoivre cis_multiple_2pi)
  qed
  have sum_eq: "(\<Sum>k<r. cis (- 1 * 2 * pi * (real k * real m / real r)) *
                  cis (1 * 2 * pi * (real m' * real k / real r))) = (\<Sum>k<r. z ^ k)"
    by (simp only: tm)
  show ?thesis
  proof (cases "m = m'")
    case True
    then have "z = 1" by (simp add: z_def)
    then have "(\<Sum>k<r. z ^ k) = of_nat r" by simp
    with sum_eq have s1: "(\<Sum>k<r. cis (- 1 * 2 * pi * (real k * real m / real r)) *
                  cis (1 * 2 * pi * (real m' * real k / real r))) = of_nat r"
      by (rule trans)
    show ?thesis by (subst if_P[OF True]) (rule s1)
  next
    case False
    have "z \<noteq> 1"
    proof
      assume "z = 1"
      then have "cos (2 * pi * ((real m' - real m) / real r)) = 1"
        by (simp add: z_def complex_eq_iff)
      then obtain n :: int where n: "2 * pi * ((real m' - real m) / real r) = real_of_int n * 2 * pi"
        using cos_one_2pi_int by blast
      then have "(2 * pi) * ((real m' - real m) / real r) = (2 * pi) * real_of_int n"
        by (simp only: mult_ac)
      moreover have "2 * pi \<noteq> 0" by simp
      ultimately have "(real m' - real m) / real r = real_of_int n"
        by (metis mult_left_cancel)
      then have "real m' - real m = real_of_int n * real r" using r by (simp add: field_simps)
      then have "real_of_int (int m' - int m) = real_of_int (n * int r)" by simp
      then have eq: "int m' - int m = n * int r" by (simp only: of_int_eq_iff)
      have "\<bar>int m' - int m\<bar> < int r" using assms by linarith
      then have "\<bar>n\<bar> * int r < 1 * int r" using eq by (simp add: abs_mult)
      then have "\<bar>n\<bar> < 1" using r by simp
      then have "n = 0" by simp
      then show False using eq False by simp
    qed
    then have "(\<Sum>k<r. z ^ k) = 0" by (simp add: sum_gp_strict zr)
    with sum_eq have s0: "(\<Sum>k<r. cis (- 1 * 2 * pi * (real k * real m / real r)) *
                  cis (1 * 2 * pi * (real m' * real k / real r))) = 0"
      by (rule trans)
    show ?thesis by (subst if_not_P[OF False]) (rule s0)
  qed
qed

lemma sum4_rearrange:
  fixes x :: "nat \<Rightarrow> nat \<Rightarrow> complex"
  shows "(\<Sum>k<r. \<Sum>l<c. (\<Sum>m<r. \<Sum>n<c. x m n * a k m * b l n) * a' k * b' l) =
         (\<Sum>m<r. \<Sum>n<c. x m n * (\<Sum>k<r. a k m * a' k) * (\<Sum>l<c. b l n * b' l))"
proof -
  let ?t = "\<lambda>k l m n. x m n * (a k m * a' k) * (b l n * b' l)"
  have "(\<Sum>k<r. \<Sum>l<c. (\<Sum>m<r. \<Sum>n<c. x m n * a k m * b l n) * a' k * b' l) =
        (\<Sum>k<r. \<Sum>l<c. \<Sum>m<r. \<Sum>n<c. ?t k l m n)"
    by (simp add: sum_distrib_left sum_distrib_right mult_ac)
  also have "\<dots> = (\<Sum>k<r. \<Sum>m<r. \<Sum>l<c. \<Sum>n<c. ?t k l m n)"
    by (rule sum.cong[OF refl]) (rule sum.swap)
  also have "\<dots> = (\<Sum>m<r. \<Sum>k<r. \<Sum>l<c. \<Sum>n<c. ?t k l m n)"
    by (rule sum.swap)
  also have "\<dots> = (\<Sum>m<r. \<Sum>k<r. \<Sum>n<c. \<Sum>l<c. ?t k l m n)"
    by (rule sum.cong[OF refl], rule sum.cong[OF refl]) (rule sum.swap)
  also have "\<dots> = (\<Sum>m<r. \<Sum>n<c. \<Sum>k<r. \<Sum>l<c. ?t k l m n)"
    by (rule sum.cong[OF refl]) (rule sum.swap)
  also have "\<dots> = (\<Sum>m<r. \<Sum>n<c. x m n * (\<Sum>k<r. a k m * a' k) * (\<Sum>l<c. b l n * b' l))"
  proof (rule sum.cong[OF refl], rule sum.cong[OF refl])
    fix m n
    have "x m n * (\<Sum>k<r. a k m * a' k) * (\<Sum>l<c. b l n * b' l) =
          x m n * (\<Sum>k<r. \<Sum>l<c. (a k m * a' k) * (b l n * b' l))"
      by (simp only: sum_product mult.assoc)
    also have "\<dots> = (\<Sum>k<r. \<Sum>l<c. x m n * ((a k m * a' k) * (b l n * b' l)))"
      by (simp only: sum_distrib_left)
    finally show "(\<Sum>k<r. \<Sum>l<c. ?t k l m n) =
        x m n * (\<Sum>k<r. a k m * a' k) * (\<Sum>l<c. b l n * b' l)"
      by (simp only: mult.assoc)
  qed
  finally show ?thesis .
qed

lemma roll_back:
  assumes "i < (r::nat)"
  shows "((i + r div 2) mod r + r - r div 2) mod r = i"
proof -
  have le: "r div 2 \<le> r" by simp
  have "(i + r div 2) mod r + r - r div 2 = (i + r div 2) mod r + (r - r div 2)"
    using le by simp
  then have "((i + r div 2) mod r + r - r div 2) mod r = ((i + r div 2) mod r + (r - r div 2)) mod r"
    by (rule arg_cong)
  also have "\<dots> = (i + r div 2 + (r - r div 2)) mod r"
    by (rule mod_add_left_eq)
  also have "i + r div 2 + (r - r div 2) = i + r"
    using le by linarith
  also have "(i + r) mod r = i" using assms by simp
  finally show ?thesis .
qed


lemma shape_tabulate2 [simp]: "shape (tabulate2 r c f) = [r, c]"
  by (simp add: tabulate2_def)

lemma length_data_tabulate2 [simp]: "length (data (tabulate2 r c f)) = r * c"
  by (simp add: tabulate2_def length_concat_rows)

lemma sum_pick:
  fixes f :: "nat \<Rightarrow> complex"
  assumes "j < n"
  shows "(\<Sum>i<n. f i * (if i = j then C else 0)) = f j * C"
proof -
  have "(\<Sum>i<n. f i * (if i = j then C else 0)) = (\<Sum>i<n. if i = j then f i * C else 0)"
    by (intro sum.cong refl) simp
  also have "\<dots> = f j * C"
    using assms by (simp add: sum.delta)
  finally show ?thesis .
qed

lemma dft_inverse:
  assumes "m' < r" "n' < c"
  shows "dft_sum 1 r c (data (tabulate2 r c (dft_sum (- 1) r c xs))) m' n' / of_nat (r * c)
         = item2 c xs m' n'"
proof -
  let ?a = "\<lambda>k m. cis (- 1 * 2 * pi * (real k * real m / real r))"
  let ?b = "\<lambda>l n. cis (- 1 * 2 * pi * (real l * real n / real c))"
  let ?a' = "\<lambda>k. cis (1 * 2 * pi * (real m' * real k / real r))"
  let ?b' = "\<lambda>l. cis (1 * 2 * pi * (real n' * real l / real c))"
  let ?x = "item2 c xs"
  have "dft_sum 1 r c (data (tabulate2 r c (dft_sum (- 1) r c xs))) m' n'
        = (\<Sum>k<r. \<Sum>l<c. dft_sum (- 1) r c xs k l * ?a' k * ?b' l)"
    unfolding dft_sum_def [of 1]
    by (intro sum.cong refl) (simp add: item2_tabulate2)
  also have "\<dots> = (\<Sum>k<r. \<Sum>l<c. (\<Sum>m<r. \<Sum>n<c. ?x m n * ?a k m * ?b l n) * ?a' k * ?b' l)"
    by (simp only: dft_sum_def)
  also have "\<dots> = (\<Sum>m<r. \<Sum>n<c. ?x m n * (\<Sum>k<r. ?a k m * ?a' k) * (\<Sum>l<c. ?b l n * ?b' l))"
    by (rule sum4_rearrange)
  also have "\<dots> = (\<Sum>m<r. \<Sum>n<c. ?x m n * (if m = m' then of_nat r else 0) * (if n = n' then of_nat c else 0))"
    using assms by (intro sum.cong refl) (simp only: unit_root_sum lessThan_iff)
  also have "\<dots> = (\<Sum>m<r. ?x m n' * (if m = m' then of_nat r else 0) * of_nat c)"
    using assms(2) by (intro sum.cong refl) (rule sum_pick)
  also have "\<dots> = (\<Sum>m<r. (?x m n' * of_nat c) * (if m = m' then of_nat r else 0))"
    by (intro sum.cong refl) (simp only: mult_ac)
  also have "\<dots> = (?x m' n' * of_nat c) * of_nat r"
    using assms(1) by (rule sum_pick)
  finally show ?thesis using assms by simp
qed

text \<open>The inverse shift undoes the shift, for even and odd lengths alike.\<close>

lemma ifftshift_fftshift_tabulate2:
  "np_ifftshift (np_fftshift (tabulate2 r c g)) = tabulate2 r c g"
proof -
  have "np_ifftshift (np_fftshift (tabulate2 r c g)) =
        tabulate2 r c (\<lambda>i j. item2 c (data (tabulate2 r c
            (\<lambda>i j. item2 c (data (tabulate2 r c g)) ((i + r - r div 2) mod r) ((j + c - c div 2) mod c))))
          ((i + r div 2) mod r) ((j + c div 2) mod c))"
    by (simp add: np_ifftshift_def np_fftshift_def)
  also have "\<dots> = tabulate2 r c g"
  proof (rule tabulate2_cong)
    fix i j assume ij: "i < r" "j < c"
    then have a: "(i + r div 2) mod r < r" "(j + c div 2) mod c < c" by simp_all
    have b: "((i + r div 2) mod r + r - r div 2) mod r < r"
            "((j + c div 2) mod c + c - c div 2) mod c < c" using ij by simp_all
    show "item2 c (data (tabulate2 r c
            (\<lambda>i j. item2 c (data (tabulate2 r c g)) ((i + r - r div 2) mod r) ((j + c - c div 2) mod c))))
          ((i + r div 2) mod r) ((j + c div 2) mod c) = g i j"
      using ij by (simp only: item2_tabulate2 [OF a] item2_tabulate2 [OF b] roll_back item2_tabulate2 [OF ij])
  qed
  finally show ?thesis .
qed

lemma ifft_fft_complex:
  assumes "shape X = [r, c]" "length (data X) = r * c" "0 < r" "0 < c"
  shows "bind_err (fft X) ifft = Inr (np_abs X)"
proof -
  let ?F = "dft_sum (- 1) r c (data X)"
  have f: "fft X = Inr (np_fftshift (tabulate2 r c ?F))"
    using assms by (simp add: fft_def np_fft2_def bind_err_def)
  have "np_ifft2 (tabulate2 r c ?F) =
        Inr (tabulate2 r c (\<lambda>k l. dft_sum 1 r c (data (tabulate2 r c ?F)) k l / of_nat (r * c)))"
    using assms by (simp add: np_ifft2_def)
  also have "tabulate2 r c (\<lambda>k l. dft_sum 1 r c (data (tabulate2 r c ?F)) k l / of_nat (r * c))
             = tabulate2 r c (item2 c (data X))"
    by (rule tabulate2_cong) (rule dft_inverse)
  also have "\<dots> = X"
    using assms tabulate2_item2 [of "data X" r c] by (cases X) simp
  finally have "np_ifft2 (tabulate2 r c ?F) = Inr X" .
  then show ?thesis
    by (simp add: f bind_err_def ifft_def ifftshift_fftshift_tabulate2)
qed

text \<open>
  The element type changes from real to complex and back: the magnitude of a real number
  read as a complex number is its absolute value.
\<close>

lemma np_abs_of_real: "np_abs (map_array complex_of_real x) = map_array abs x"
  by (simp add: np_abs_def map_array_def)

lemma ifft_fft_real:
  assumes "shape x = [r, c]" "wf_array x" "0 < r" "0 < c"
  shows "bind_err (fft (map_array complex_of_real x)) ifft = Inr (map_array abs x)"
proof -
  have "bind_err (fft (map_array complex_of_real x)) ifft
        = Inr (np_abs (map_array complex_of_real x))"
    using assms by (intro ifft_fft_complex [of _ r c]) (simp_all add: map_array_def wf_array_def)
  then show ?thesis by (simp only: np_abs_of_real)
qed

subsection \<open>C1: the transform round trip\<close>

text \<open>
  C1, as stated, fails: the claim is that \<open>ifft(fft(x))\<close> gives back every real 2-D frame
  \<open>x\<close>. On the 1 x 1 frame holding \<open>-1\<close> the round trip returns the frame holding \<open>1\<close>.
\<close>

theorem C1_roundtrip_counterexample:
  "bind_err (fft (map_array complex_of_real (NDArray [1, 1] [- 1]))) ifft = Inr (NDArray [1, 1] [1])
   \<and> NDArray [1, 1] [1] \<noteq> NDArray [1, 1] [- 1 :: real]"
proof -
  have "bind_err (fft (map_array complex_of_real (NDArray [1, 1] [- 1]))) ifft
        = Inr (map_array abs (NDArray [1, 1] [- 1]))"
    by (rule ifft_fft_real [of _ 1 1]) (simp_all add: wf_array_def)
  then show ?thesis by (simp add: map_array_def)
qed

text \<open>
  C1, amended: for every non-empty real 2-D frame \<open>x\<close>, \<open>ifft(fft(x))\<close> is the element-wise
  absolute value of \<open>x\<close>; it is \<open>x\<close> itself exactly when no element of \<open>x\<close> is negative.
\<close>

theorem C1_roundtrip_magnitude:
  assumes "shape x = [r, c]" "wf_array x" "0 < r" "0 < c"
  shows "bind_err (fft (map_array complex_of_real x)) ifft = Inr (map_array abs x)
         \<and> (bind_err (fft (map_array complex_of_real x)) ifft = Inr x
              \<longleftrightarrow> (\<forall>v \<in> set (data x). 0 \<le> v))"
proof -
  have eq: "bind_err (fft (map_array complex_of_real x)) ifft = Inr (map_array abs x)"
    using assms by (rule ifft_fft_real)
  have "map_array abs x = x \<longleftrightarrow> map abs (data x) = data x"
    by (cases x) (simp add: map_array_def)
  also have "\<dots> \<longleftrightarrow> (\<forall>v \<in> set (data x). \<bar>v\<bar> = v)"
    by (simp add: map_idI list.map_ident_strong map_eq_conv [where g = "\<lambda>v. v", simplified])
  also have "\<dots> \<longleftrightarrow> (\<forall>v \<in> set (data x). 0 \<le> v)"
    by (intro ball_cong refl) (auto simp: abs_if)
  finally show ?thesis using eq by simp
qed

theorem C1_roundtrip_magnitude_witness:
  "shape (NDArray [1, 2] [3, - 4 :: real]) = [1, 2] \<and> wf_array (NDArray [1, 2] [3, - 4 :: real])
   \<and> bind_err (fft (map_array complex_of_real (NDArray [1, 2] [3, - 4]))) ifft
       = Inr (NDArray [1, 2] [3, 4])
   \<and> bind_err (fft (map_array complex_of_real (NDArray [1, 2] [3, - 4]))) ifft
       \<noteq> Inr (NDArray [1, 2] [3, - 4])"
  using C1_roundtrip_magnitude [of "NDArray [1, 2] [3, - 4]" 1 2]
  by (simp add: wf_array_def map_array_def)

subsection \<open>C2: errors of the high-pass dispatcher\<close>

text \<open>
  C2: \<open>frame_filter_highpass\<close> raises the input-shape error for every array that is not
  2-D, whatever the mode, the other arguments and the libraries are, so before any numeric
  work and before the dispatch; and for a 2-D array it raises the unrecognised-mode error
  for every mode outside the four documented ones.
\<close>

theorem C2_highpass_errors:
  "(ndim array \<noteq> 2 \<longrightarrow>
      frame_filter_highpass E array mode median_size kernel_size fwhm_size
        = Inl (TypeError ''Input array is not a frame or 2d array''))
   \<and> (ndim array = 2 \<and> mode \<notin> {''kernel-conv'', ''median-subt'', ''gauss-subt'', ''fourier-butter''} \<longrightarrow>
      frame_filter_highpass E array mode median_size kernel_size fwhm_size
        = Inl (TypeError ''Mode not recognized''))"
  by (simp add: frame_filter_highpass_def)

theorem C2_highpass_errors_witness:
  "ndim (NDArray [4] [1, 2, 3, 4 :: real]) \<noteq> 2
   \<and> frame_filter_highpass instance_lib (NDArray [4] [1, 2, 3, 4]) ''median-subt'' 5 5 5
        = Inl (TypeError ''Input array is not a frame or 2d array'')
   \<and> ndim (NDArray [1, 1] [1 :: real]) = 2
   \<and> ''bogus'' \<notin> {''kernel-conv'', ''median-subt'', ''gauss-subt'', ''fourier-butter''}
   \<and> frame_filter_highpass instance_lib (NDArray [1, 1] [1]) ''bogus'' 5 5 5
        = Inl (TypeError ''Mode not recognized'')"
  using C2_highpass_errors [of "NDArray [4] [1, 2, 3, 4]" instance_lib "''median-subt''" 5 5 5]
        C2_highpass_errors [of "NDArray [1, 1] [1]" instance_lib "''bogus''" 5 5 5]
  by (simp add: ndim_def)

subsection \<open>C3: the threshold mode of the wavelet denoiser\<close>

text \<open>
  C3, as stated, fails: the claim is that \<open>wavelet_denoise\<close> raises its value error exactly
  when \<open>thrmode\<close> is neither \<open>hard\<close> nor \<open>soft\<close>, and before the decomposition. A 1-D array
  with a bad \<open>thrmode\<close> raises the type error instead; with a 2-D array and a level the
  decomposition refuses, the error of the decomposition comes out, for a bad \<open>thrmode\<close> as for
  a good one: the decomposition runs first.
\<close>

theorem C3_thrmode_counterexample:
  "wavelet_denoise instance_lib (NDArray [2] [1, 2]) () 1 0 ''bogus''
     = Inl (TypeError ''Input array is not a frame or 2d array'')
   \<and> wavelet_denoise instance_lib (NDArray [1, 1] [1]) () 1 (- 1) ''bogus''
     = Inl (ValueError ''Level value is too low'')
   \<and> wavelet_denoise instance_lib (NDArray [1, 1] [1]) () 1 (- 1) ''hard''
     = Inl (ValueError ''Level value is too low'')"
  by (simp add: wavelet_denoise_def instance_lib_def ndim_def level0_wavedec2_def bind_err_def)

text \<open>
  C3, amended: \<open>wavelet_denoise\<close> first checks that the array is 2-D (type error), then runs
  the wavelet decomposition, whose error, if any, is the outcome; only after a successful
  decomposition does it look at \<open>thrmode\<close>, raising the value error
  \<open>Threshold mode not recognized\<close> when it is neither \<open>hard\<close> nor \<open>soft\<close>, and otherwise
  returning the reconstruction from the thresholded coefficients.
\<close>

theorem C3_thrmode_after_decomposition:
  "(ndim array \<noteq> 2 \<longrightarrow>
      wavelet_denoise E array wavelet threshold levels thrmode
        = Inl (TypeError ''Input array is not a frame or 2d array''))
   \<and> (\<forall>e. ndim array = 2 \<and> wavedec2 E array wavelet levels = Inl e \<longrightarrow>
      wavelet_denoise E array wavelet threshold levels thrmode = Inl e)
   \<and> (\<forall>WC. ndim array = 2 \<and> wavedec2 E array wavelet levels = Inr WC \<longrightarrow>
        (thrmode \<noteq> ''hard'' \<and> thrmode \<noteq> ''soft'' \<longrightarrow>
           wavelet_denoise E array wavelet threshold levels thrmode
             = Inl (ValueError ''Threshold mode not recognized''))
      \<and> (thrmode = ''hard'' \<longrightarrow>
           wavelet_denoise E array wavelet threshold levels thrmode
             = bind_err (map_err (\<lambda>x. thresholding_hard E x threshold) WC)
                 (\<lambda>NWC. waverec2 E NWC wavelet))
      \<and> (thrmode = ''soft'' \<longrightarrow>
           wavelet_denoise E array wavelet threshold levels thrmode
             = bind_err (map_err (\<lambda>x. thresholding_soft E x threshold) WC)
                 (\<lambda>NWC. waverec2 E NWC wavelet)))"
  by (simp add: wavelet_denoise_def bind_err_def)

theorem C3_thrmode_after_decomposition_witness:
  "wavelet_denoise instance_lib (NDArray [2] [1, 2]) () 1 0 ''bogus''
     = Inl (TypeError ''Input array is not a frame or 2d array'')
   \<and> wavelet_denoise instance_lib (NDArray [1, 2] [3, - 1]) () 2 (- 1) ''bogus''
     = Inl (ValueError ''Level value is too low'')
   \<and> wavelet_denoise instance_lib (NDArray [1, 2] [3, - 1]) () 2 0 ''bogus''
     = Inl (ValueError ''Threshold mode not recognized'')
   \<and> wavelet_denoise instance_lib (NDArray [1, 2] [3, - 1]) () 2 0 ''hard''
     = Inr (NDArray [1, 2] [3, 0])
   \<and> wavelet_denoise instance_lib (NDArray [1, 2] [3, - 1]) () 2 0 ''soft''
     = Inr (NDArray [1, 2] [1, 0])"
  using C3_thrmode_after_decomposition [of "NDArray [2] [1, 2]" instance_lib "()" 1 0 "''bogus''"]
        C3_thrmode_after_decomposition [of "NDArray [1, 2] [3, - 1]" instance_lib "()" 2 "- 1" "''bogus''"]
        C3_thrmode_after_decomposition [of "NDArray [1, 2] [3, - 1]" instance_lib "()" 2 0 "''bogus''"]
        C3_thrmode_after_decomposition [of "NDArray [1, 2] [3, - 1]" instance_lib "()" 2 0 "''hard''"]
        C3_thrmode_after_decomposition [of "NDArray [1, 2] [3, - 1]" instance_lib "()" 2 0 "''soft''"]
  by (simp add: instance_lib_def ndim_def level0_wavedec2_def level0_waverec2_def
        hard_threshold_def soft_threshold_def bind_err_def map_array_def)

subsection \<open>C4: the Butterworth branch\<close>

lemma map_array_tabulate2:
  "map_array f (tabulate2 r c g) = tabulate2 r c (\<lambda>i j. f (g i j))"
  by (simp add: map_array_def tabulate2_def map_concat o_def)

lemma length_np_linspace [simp]: "length (np_linspace a b num) = num"
  by (simp add: np_linspace_def)

lemma nth_np_linspace:
  "i < num \<Longrightarrow> np_linspace a b num ! i
     = (if num = 1 then a else a + real i * ((b - a) / real (num - 1)))"
  by (auto simp: np_linspace_def)

lemma scaled_linspace_nth:
  assumes "i < num"
  shows "(map (\<lambda>v. v * real num / 2) (np_linspace (- 0.5) 0.5 num) ! i) = grid_coordinate num i"
  using assms by (simp add: nth_np_linspace grid_coordinate_def)

lemma butter_filt_eq:
  "butter_filt rows cols = tabulate2 rows cols (butterworth_highpass rows cols)"
proof -
  let ?x = "map (\<lambda>v. v * real cols / 2) (np_linspace (- 0.5) 0.5 cols)"
  let ?y = "map (\<lambda>v. v * real rows / 2) (np_linspace (- 0.5) 0.5 rows)"
  have "butter_filt rows cols =
        tabulate2 rows cols (\<lambda>i j. 1 - 1 / (1.0 + (sqrt ((?x ! j)\<^sup>2 + (?y ! i)\<^sup>2) / 0.5) ^ (2 * 100)))"
    by (simp add: butter_filt_def Let_def add_row_column_def map_array_tabulate2)
       (rule tabulate2_cong, simp)
  also have "\<dots> = tabulate2 rows cols (butterworth_highpass rows cols)"
  proof (rule tabulate2_cong)
    fix i j assume "i < rows" "j < cols"
    then show "1 - 1 / (1.0 + (sqrt ((?x ! j)\<^sup>2 + (?y ! i)\<^sup>2) / 0.5) ^ (2 * 100))
               = butterworth_highpass rows cols i j"
      by (simp only: scaled_linspace_nth butterworth_highpass_def) simp
  qed
  finally show ?thesis .
qed

lemma index_in_range:
  assumes "i < r" "j < (c::nat)"
  shows "i * c + j < r * c"
proof -
  have "Suc i * c \<le> r * c" using assms(1) by (intro mult_le_mono1) simp
  then show ?thesis using assms(2) by simp
qed

lemma zip_array_tabulate2:
  "zip_array f (tabulate2 r c g) (tabulate2 r c h) = Inr (tabulate2 r c (\<lambda>i j. f (g i j) (h i j)))"
proof -
  let ?zs = "map2 f (data (tabulate2 r c g)) (data (tabulate2 r c h))"
  have len: "length ?zs = r * c" by simp
  have "NDArray [r, c] ?zs = tabulate2 r c (item2 c ?zs)"
    using tabulate2_item2 [OF len] by simp
  also have "\<dots> = tabulate2 r c (\<lambda>i j. f (g i j) (h i j))"
  proof (rule tabulate2_cong)
    fix i j assume ij: "i < r" "j < c"
    then have "i * c + j < r * c" by (rule index_in_range)
    then have "item2 c ?zs i j = f (item2 c (data (tabulate2 r c g)) i j) (item2 c (data (tabulate2 r c h)) i j)"
      by (simp add: item2_def)
    then show "item2 c ?zs i j = f (g i j) (h i j)"
      using ij by (simp only: item2_tabulate2)
  qed
  finally show ?thesis by (simp add: zip_array_def)
qed

lemma fftshift_tabulate2:
  "np_fftshift (tabulate2 r c f)
     = tabulate2 r c (\<lambda>i j. f ((i + r - r div 2) mod r) ((j + c - c div 2) mod c))"
proof -
  have "np_fftshift (tabulate2 r c f)
        = tabulate2 r c (\<lambda>i j. item2 c (data (tabulate2 r c f))
                                 ((i + r - r div 2) mod r) ((j + c - c div 2) mod c))"
    by (simp add: np_fftshift_def)
  also have "\<dots> = tabulate2 r c (\<lambda>i j. f ((i + r - r div 2) mod r) ((j + c - c div 2) mod c))"
  proof (rule tabulate2_cong)
    fix i j assume "i < r" "j < c"
    then have "(i + r - r div 2) mod r < r" "(j + c - c div 2) mod c < c" by simp_all
    then show "item2 c (data (tabulate2 r c f)) ((i + r - r div 2) mod r) ((j + c - c div 2) mod c)
               = f ((i + r - r div 2) mod r) ((j + c - c div 2) mod c)"
      by (rule item2_tabulate2)
  qed
  finally show ?thesis .
qed

lemma ifftshift_tabulate2:
  "np_ifftshift (tabulate2 r c f)
     = tabulate2 r c (\<lambda>i j. f ((i + r div 2) mod r) ((j + c div 2) mod c))"
proof -
  have "np_ifftshift (tabulate2 r c f)
        = tabulate2 r c (\<lambda>i j. item2 c (data (tabulate2 r c f))
                                 ((i + r div 2) mod r) ((j + c div 2) mod c))"
    by (simp add: np_ifftshift_def)
  also have "\<dots> = tabulate2 r c (\<lambda>i j. f ((i + r div 2) mod r) ((j + c div 2) mod c))"
  proof (rule tabulate2_cong)
    fix i j assume "i < r" "j < c"
    then have "(i + r div 2) mod r < r" "(j + c div 2) mod c < c" by simp_all
    then show "item2 c (data (tabulate2 r c f)) ((i + r div 2) mod r) ((j + c div 2) mod c)
               = f ((i + r div 2) mod r) ((j + c div 2) mod c)"
      by (rule item2_tabulate2)
  qed
  finally show ?thesis .
qed

lemma dft_sum_tabulate2:
  "dft_sum s r c (data (tabulate2 r c f)) k l
     = (\<Sum>m<r. \<Sum>n<c. f m n * cis (s * 2 * pi * (real k * real m / real r))
                               * cis (s * 2 * pi * (real l * real n / real c)))"
  unfolding dft_sum_def
  by (intro sum.cong refl) (simp add: item2_tabulate2)

lemma dft_sum_of_real:
  assumes "length xs = r * c"
  shows "dft_sum s r c (map complex_of_real xs) k l
     = (\<Sum>m<r. \<Sum>n<c. complex_of_real (xs ! (m * c + n))
                          * cis (s * 2 * pi * (real k * real m / real r))
                          * cis (s * 2 * pi * (real l * real n / real c)))"
  unfolding dft_sum_def
proof (intro sum.cong refl)
  fix m n assume "m \<in> {..<r}" "n \<in> {..<c}"
  then have "m * c + n < length xs" using assms by (simp add: index_in_range)
  then show "item2 c (map complex_of_real xs) m n
               * cis (s * 2 * pi * (real k * real m / real r))
               * cis (s * 2 * pi * (real l * real n / real c))
             = complex_of_real (xs ! (m * c + n))
               * cis (s * 2 * pi * (real k * real m / real r))
               * cis (s * 2 * pi * (real l * real n / real c))"
    by (simp add: item2_def)
qed

lemma fourier_butter_table:
  assumes "shape array = [rows, cols]" "length (data array) = rows * cols" "0 < rows" "0 < cols"
  shows "frame_filter_highpass E array ''fourier-butter'' median_size kernel_size fwhm_size
         = Inr (tabulate2 rows cols
             (\<lambda>m n. cmod
                ((\<Sum>k<rows. \<Sum>l<cols.
                    (\<Sum>p<rows. \<Sum>q<cols.
                        complex_of_real (data array ! (p * cols + q))
                        * cis (- 1 * 2 * pi * (real k * real p / real rows))
                        * cis (- 1 * 2 * pi * (real l * real q / real cols)))
                    * complex_of_real (butterworth_highpass rows cols
                        ((k + rows div 2) mod rows) ((l + cols div 2) mod cols))
                    * cis (1 * 2 * pi * (real m * real k / real rows))
                    * cis (1 * 2 * pi * (real n * real l / real cols)))
                 / of_nat (rows * cols))))"
proof -
  let ?F = "\<lambda>k l. dft_sum (- 1) rows cols (map complex_of_real (data array)) k l"
  let ?H = "butterworth_highpass rows cols"
  let ?up = "\<lambda>n i. (i + n - n div 2) mod n"
  let ?down = "\<lambda>n i. (i + n div 2) mod n"
  have f: "fft (map_array complex_of_real array)
           = Inr (tabulate2 rows cols (\<lambda>i j. ?F (?up rows i) (?up cols j)))"
    using assms by (simp add: fft_def np_fft2_def bind_err_def map_array_def fftshift_tabulate2)
  have m: "np_multiply (tabulate2 rows cols (\<lambda>i j. ?F (?up rows i) (?up cols j))) (butter_filt rows cols)
           = Inr (tabulate2 rows cols
                   (\<lambda>i j. ?F (?up rows i) (?up cols j) * complex_of_real (?H i j)))"
    by (simp add: np_multiply_def butter_filt_eq zip_array_tabulate2)
  have s: "np_ifftshift (tabulate2 rows cols
                   (\<lambda>i j. ?F (?up rows i) (?up cols j) * complex_of_real (?H i j)))
           = tabulate2 rows cols
               (\<lambda>k l. ?F k l * complex_of_real (?H (?down rows k) (?down cols l)))"
    unfolding ifftshift_tabulate2
    by (rule tabulate2_cong) (simp add: roll_back)
  have i: "ifft (tabulate2 rows cols
                   (\<lambda>i j. ?F (?up rows i) (?up cols j) * complex_of_real (?H i j)))
           = Inr (tabulate2 rows cols
               (\<lambda>m n. cmod
                  ((\<Sum>k<rows. \<Sum>l<cols.
                      ?F k l * complex_of_real (?H (?down rows k) (?down cols l))
                      * cis (1 * 2 * pi * (real m * real k / real rows))
                      * cis (1 * 2 * pi * (real n * real l / real cols)))
                   / of_nat (rows * cols))))"
    using assms(3,4)
    by (simp only: ifft_def s)
       (simp add: np_ifft2_def bind_err_def np_abs_def map_array_tabulate2 dft_sum_tabulate2)
  have "frame_filter_highpass E array ''fourier-butter'' median_size kernel_size fwhm_size
        = Inr (tabulate2 rows cols
               (\<lambda>m n. cmod
                  ((\<Sum>k<rows. \<Sum>l<cols.
                      ?F k l * complex_of_real (?H (?down rows k) (?down cols l))
                      * cis (1 * 2 * pi * (real m * real k / real rows))
                      * cis (1 * 2 * pi * (real n * real l / real cols)))
                   / of_nat (rows * cols))))"
    using assms(1) by (simp add: frame_filter_highpass_def ndim_def f m i bind_err_def)
  then show ?thesis by (simp only: dft_sum_of_real [OF assms(2)])
qed


lemma nth_data_tabulate2:
  "i < r \<Longrightarrow> j < c \<Longrightarrow> data (tabulate2 r c f) ! (i * c + j) = f i j"
  using item2_tabulate2 [of i r j c f] by (simp add: item2_def)

lemma butterworth_highpass_nonneg: "0 \<le> butterworth_highpass rows cols i j"
proof -
  define x where
    "x = (sqrt ((grid_coordinate cols j)\<^sup>2 + (grid_coordinate rows i)\<^sup>2) / (1 / 2)) ^ 200"
  have "0 \<le> x" by (simp add: x_def)
  then have "1 / (1 + x) \<le> 1" by simp
  then show ?thesis
    unfolding butterworth_highpass_def x_def [symmetric] by simp
qed

text \<open>
  C4: for a non-empty 2-D array of shape \<open>(rows, cols)\<close>, mode \<open>fourier-butter\<close> returns, at
  row \<open>m\<close> and column \<open>n\<close>, the magnitude of the inverse discrete Fourier transform of the
  product of the array's spectrum with the transfer function
  \<open>1 - 1 / (1 + (radius / f) ^ (2 n))\<close>, \<open>f = 0.5\<close>, \<open>pxd = 2.0\<close>, \<open>n = 100\<close>, over the
  normalised frequency grid. The spectrum is centred for the product: the frequency of index
  \<open>k\<close> along an axis of length \<open>r\<close> meets the grid at position \<open>(k + r div 2) mod r\<close>.
\<close>

theorem C4_fourier_butter:
  assumes "shape array = [rows, cols]" "length (data array) = rows * cols" "0 < rows" "0 < cols"
  shows "\<exists>filtered.
           frame_filter_highpass E array ''fourier-butter'' median_size kernel_size fwhm_size
             = Inr filtered
           \<and> shape filtered = [rows, cols]
           \<and> length (data filtered) = rows * cols
           \<and> (\<forall>m<rows. \<forall>n<cols.
                data filtered ! (m * cols + n) =
                  cmod ((\<Sum>k<rows. \<Sum>l<cols.
                           (\<Sum>p<rows. \<Sum>q<cols.
                               complex_of_real (data array ! (p * cols + q))
                               * cis (- (2 * pi * (real k * real p / real rows)))
                               * cis (- (2 * pi * (real l * real q / real cols))))
                           * complex_of_real (butterworth_highpass rows cols
                               ((k + rows div 2) mod rows) ((l + cols div 2) mod cols))
                           * cis (2 * pi * (real m * real k / real rows))
                           * cis (2 * pi * (real n * real l / real cols)))
                        / of_nat (rows * cols)))"
  by (simp add: fourier_butter_table [OF assms] nth_data_tabulate2)

theorem C4_fourier_butter_witness:
  "shape (NDArray [1, 1] [- 5 :: real]) = [1, 1]
   \<and> length (data (NDArray [1, 1] [- 5 :: real])) = 1 * 1
   \<and> (\<exists>filtered.
         frame_filter_highpass instance_lib (NDArray [1, 1] [- 5]) ''fourier-butter'' 5 5 5
           = Inr filtered
         \<and> shape filtered = [1, 1]
         \<and> data filtered ! 0 = 5 * butterworth_highpass 1 1 0 0)"
  using C4_fourier_butter [of "NDArray [1, 1] [- 5]" 1 1 instance_lib 5 5 5]
        butterworth_highpass_nonneg [of 1 1 0 0]
  by (auto simp: norm_mult)

subsection \<open>C5: median subtraction\<close>

lemma sort_all_equal:
  assumes "\<forall>x \<in> set xs. x = v" "k < length xs"
  shows "sort xs ! k = v"
proof -
  have "sort xs ! k \<in> set (sort xs)" using assms(2) by (intro nth_mem) simp
  then show ?thesis using assms(1) by simp
qed

lemma clamp_index_less: "0 < n \<Longrightarrow> clamp_index n i < n"
  by (simp add: clamp_index_def)

lemma item2_replicate:
  assumes "i < r" "j < c"
  shows "item2 c (replicate (r * c) v) i j = v"
proof -
  have "Suc i * c \<le> r * c" using assms(1) by (intro mult_le_mono1) simp
  then have "i * c + j < r * c" using assms(2) by simp
  then show ?thesis by (simp add: item2_def)
qed

lemma window_nearest_const:
  assumes "0 < r" "0 < c"
  shows "\<forall>x \<in> set (window_nearest r c (replicate (r * c) v) s i j). x = v"
  using assms by (auto simp: window_nearest_def item2_replicate clamp_index_less)

lemma length_window_nearest: "length (window_nearest r c xs s i j) = s * s"
  by (simp add: window_nearest_def window_offsets_def length_concat o_def sum_list_triv)

lemma tabulate2_const: "tabulate2 r c (\<lambda>i j. v) = NDArray [r, c] (replicate (r * c) v)"
proof -
  have "tabulate2 r c (\<lambda>i j. v) = tabulate2 r c (item2 c (replicate (r * c) v))"
    by (rule tabulate2_cong) (simp add: item2_replicate)
  also have "\<dots> = NDArray [r, c] (replicate (r * c) v)"
    by (rule tabulate2_item2) simp
  finally show ?thesis .
qed

lemma direct_median_filter_const:
  assumes "0 < sz"
  shows "direct_median_filter (NDArray [r, c] (replicate (r * c) v)) sz ''nearest''
         = Inr (NDArray [r, c] (replicate (r * c) v))"
proof -
  have pos: "0 < nat sz * nat sz" using assms by simp
  have "tabulate2 r c (\<lambda>i j. sort (window_nearest r c (replicate (r * c) v) (nat sz) i j)
                                           ! ((nat sz * nat sz) div 2))
        = tabulate2 r c (\<lambda>i j. v)"
  proof (rule tabulate2_cong)
    fix i j assume "i < r" "j < c"
    then have rc: "0 < r" "0 < c" by simp_all
    have "(nat sz * nat sz) div 2 < length (window_nearest r c (replicate (r * c) v) (nat sz) i j)"
      using pos by (simp add: length_window_nearest)
    with window_nearest_const [OF rc]
    show "sort (window_nearest r c (replicate (r * c) v) (nat sz) i j) ! ((nat sz * nat sz) div 2) = v"
      by (rule sort_all_equal)
  qed
  then show ?thesis using assms by (simp add: direct_median_filter_def tabulate2_const)
qed

lemma np_subtract_self:
  "np_subtract (NDArray sh (replicate n v)) (NDArray sh (replicate n v)) = Inr (NDArray sh (replicate n 0))"
  by (simp add: np_subtract_def zip_array_def zip_replicate)

lemma np_subtract_nth:
  assumes "shape a = shape b" "length (data a) = n" "length (data b) = n"
  shows "\<exists>d. np_subtract a b = Inr d \<and> shape d = shape a \<and> length (data d) = n
             \<and> (\<forall>k<n. data d ! k = data a ! k - data b ! k)"
  using assms by (simp add: np_subtract_def zip_array_def)

lemma direct_median_filter_example:
  "direct_median_filter (NDArray [1, 3] [1, 5, 3]) 3 ''nearest'' = Inr (NDArray [1, 3] [1, 3, 3])"
  by (simp add: direct_median_filter_def tabulate2_def window_nearest_def window_offsets_def
        clamp_index_def item2_def upt_rec)

text \<open>
  C5: for a 2-D array, mode \<open>median-subt\<close> returns, element by element, the array minus its
  median filter of size \<open>median_size\<close> with \<open>nearest\<close> boundary handling, the filter being
  the library's and returning a frame of the shape of its input. A median filter leaves a
  constant frame as it is, and then the result for the constant 10 x 10 frame with
  \<open>median_size = 3\<close> is the all-zero frame.
\<close>

theorem C5_median_subtraction:
  "(\<forall>medianed.
      shape array = [rows, cols] \<and> length (data array) = rows * cols
      \<and> median_filter E array median_size ''nearest'' = Inr medianed
      \<and> shape medianed = [rows, cols] \<and> length (data medianed) = rows * cols
      \<longrightarrow> (\<exists>filtered.
             frame_filter_highpass E array ''median-subt'' median_size kernel_size fwhm_size
               = Inr filtered
             \<and> shape filtered = [rows, cols]
             \<and> length (data filtered) = rows * cols
             \<and> (\<forall>i<rows. \<forall>j<cols.
                  data filtered ! (i * cols + j)
                    = data array ! (i * cols + j) - data medianed ! (i * cols + j))))
   \<and> (median_filter E (NDArray [10, 10] (replicate 100 v)) 3 ''nearest''
         = Inr (NDArray [10, 10] (replicate 100 v)) \<longrightarrow>
      frame_filter_highpass E (NDArray [10, 10] (replicate 100 v)) ''median-subt'' 3 kernel_size fwhm_size
        = Inr (NDArray [10, 10] (replicate 100 0)))"
proof (intro conjI allI impI)
  fix medianed
  assume h: "shape array = [rows, cols] \<and> length (data array) = rows * cols
      \<and> median_filter E array median_size ''nearest'' = Inr medianed
      \<and> shape medianed = [rows, cols] \<and> length (data medianed) = rows * cols"
  then obtain d where d: "np_subtract array medianed = Inr d" "shape d = shape array"
      "length (data d) = rows * cols"
      "\<forall>k<rows * cols. data d ! k = data array ! k - data medianed ! k"
    using np_subtract_nth [of array medianed "rows * cols"] by auto
  have run: "frame_filter_highpass E array ''median-subt'' median_size kernel_size fwhm_size = Inr d"
    using h d(1) by (simp add: frame_filter_highpass_def ndim_def bind_err_def)
  have "\<forall>i<rows. \<forall>j<cols. data d ! (i * cols + j)
          = data array ! (i * cols + j) - data medianed ! (i * cols + j)"
    using d(4) index_in_range by blast
  then show "\<exists>filtered.
             frame_filter_highpass E array ''median-subt'' median_size kernel_size fwhm_size
               = Inr filtered
             \<and> shape filtered = [rows, cols]
             \<and> length (data filtered) = rows * cols
             \<and> (\<forall>i<rows. \<forall>j<cols.
                  data filtered ! (i * cols + j)
                    = data array ! (i * cols + j) - data medianed ! (i * cols + j))"
    using run d(2,3) h by auto
next
  assume "median_filter E (NDArray [10, 10] (replicate 100 v)) 3 ''nearest''
         = Inr (NDArray [10, 10] (replicate 100 v))"
  then show "frame_filter_highpass E (NDArray [10, 10] (replicate 100 v)) ''median-subt'' 3 kernel_size fwhm_size
        = Inr (NDArray [10, 10] (replicate 100 0))"
    by (simp add: frame_filter_highpass_def ndim_def bind_err_def np_subtract_self)
qed

theorem C5_median_subtraction_witness:
  "median_filter instance_lib (NDArray [1, 3] [1, 5, 3]) 3 ''nearest''
     = Inr (NDArray [1, 3] [1, 3, 3])
   \<and> (\<exists>filtered.
         frame_filter_highpass instance_lib (NDArray [1, 3] [1, 5, 3]) ''median-subt'' 3 5 5
           = Inr filtered
         \<and> shape filtered = [1, 3]
         \<and> data filtered ! 0 = 0 \<and> data filtered ! 1 = 2 \<and> data filtered ! 2 = 0)
   \<and> median_filter instance_lib (NDArray [10, 10] (replicate 100 7)) 3 ''nearest''
        = Inr (NDArray [10, 10] (replicate 100 7))
   \<and> frame_filter_highpass instance_lib (NDArray [10, 10] (replicate 100 7)) ''median-subt'' 3 5 5
        = Inr (NDArray [10, 10] (replicate 100 0))"
proof -
  let ?A = "NDArray [1, 3] [1, 5, 3 :: real]"
  let ?M = "NDArray [1, 3] [1, 3, 3 :: real]"
  let ?C = "NDArray [10, 10] (replicate 100 (7 :: real))"
  have m: "median_filter instance_lib ?A 3 ''nearest'' = Inr ?M"
    using direct_median_filter_example by (simp add: instance_lib_def)
  have c: "median_filter instance_lib ?C 3 ''nearest'' = Inr ?C"
    using direct_median_filter_const [of 3 10 10 7] by (simp add: instance_lib_def)
  have hyp: "shape ?A = [1, 3] \<and> length (data ?A) = 1 * 3
      \<and> median_filter instance_lib ?A 3 ''nearest'' = Inr ?M
      \<and> shape ?M = [1, 3] \<and> length (data ?M) = 1 * 3"
    using m by simp
  obtain filtered where f:
      "frame_filter_highpass instance_lib ?A ''median-subt'' 3 5 5 = Inr filtered"
      "shape filtered = [1, 3]"
      "\<forall>i<1. \<forall>j<3. data filtered ! (i * 3 + j) = data ?A ! (i * 3 + j) - data ?M ! (i * 3 + j)"
    using C5_median_subtraction [of ?A 1 3 instance_lib 3 5 5 7] hyp by blast
  have "data filtered ! 0 = 0" using f(3) [rule_format, of 0 0] by simp
  moreover have "data filtered ! 1 = 2" using f(3) [rule_format, of 0 1] by simp
  moreover have "data filtered ! 2 = 0" using f(3) [rule_format, of 0 2] by (simp add: numeral_2_eq_2)
  moreover have "frame_filter_highpass instance_lib ?C ''median-subt'' 3 5 5
        = Inr (NDArray [10, 10] (replicate 100 0))"
    using c C5_median_subtraction [of ?C 10 10 instance_lib 3 5 5 7] by blast
  ultimately show ?thesis using m c f(1,2) by blast
qed

subsection \<open>C6: the Gaussian kernel\<close>

lemma np_divide_scalar_nonzero:
  "d \<noteq> 0 \<Longrightarrow> np_divide_scalar a d = Inr (map_array (\<lambda>v. v / d) a)"
  by (simp add: np_divide_scalar_def)

lemma np_max_Max:
  "data a \<noteq> [] \<Longrightarrow> np_max a = Inr (Max (set (data a)))"
proof (cases "data a")
  case Nil
  moreover assume "data a \<noteq> []"
  ultimately show ?thesis by simp
next
  case (Cons v vs)
  have "fold max vs v = Max (set (v # vs))" by (rule Max.set_eq_fold [symmetric])
  then show ?thesis using Cons by (simp add: np_max_def)
qed

lemma np_max_scale:
  assumes "data a \<noteq> []" "0 < d"
  shows "np_max (map_array (\<lambda>v. v / d) a) = Inr (Max (set (data a)) / d)"
proof -
  have "mono (\<lambda>v. v / d)" using assms(2) by (intro monoI) (simp add: divide_right_mono)
  then have "Max (set (data a)) / d = Max ((\<lambda>v. v / d) ` set (data a))"
    using assms(1) by (intro mono_Max_commute) simp_all
  moreover have "data (map_array (\<lambda>v. v / d) a) \<noteq> []"
    using assms(1) by (simp add: map_array_def)
  ultimately show ?thesis by (simp add: np_max_Max map_array_def)
qed

lemma Max_positive:
  assumes "xs \<noteq> []" "\<forall>x \<in> set xs. 0 < (x::real)"
  shows "0 < Max (set xs)"
proof -
  have "Max (set xs) \<in> set xs" using assms(1) by (intro Max_in) simp_all
  then show ?thesis using assms(2) by blast
qed

lemma map_array_map_array: "map_array f (map_array g a) = map_array (\<lambda>v. f (g v)) a"
  by (simp add: map_array_def)

lemma np_mgrid_symmetric:
  assumes "0 \<le> n" "0 \<le> m"
  shows "np_mgrid (- n) (n + 1) (- m) (m + 1) =
     Inr (tabulate2 (nat (2 * n + 1)) (nat (2 * m + 1)) (\<lambda>i j. int i - n),
          tabulate2 (nat (2 * n + 1)) (nat (2 * m + 1)) (\<lambda>i j. int j - m))"
proof -
  have l: "length [- n..n] = nat (2 * n + 1)" "length [- m..m] = nat (2 * m + 1)" by simp_all
  have "tabulate2 (nat (2 * n + 1)) (nat (2 * m + 1)) (\<lambda>i j. [- n..n] ! i)
        = tabulate2 (nat (2 * n + 1)) (nat (2 * m + 1)) (\<lambda>i j. int i - n)"
    by (rule tabulate2_cong) (simp add: nth_upto)
  moreover have "tabulate2 (nat (2 * n + 1)) (nat (2 * m + 1)) (\<lambda>i j. [- m..m] ! j)
        = tabulate2 (nat (2 * n + 1)) (nat (2 * m + 1)) (\<lambda>i j. int j - m)"
    by (rule tabulate2_cong) (simp add: nth_upto)
  ultimately show ?thesis using assms by (simp add: np_mgrid_def Let_def l del: length_upto)
qed

lemma gaussian_kernel_steps:
  assumes "1 \<le> n" "1 \<le> m"
  shows "bind_err (np_mgrid (- n) (n + 1) (- m) (m + 1))
          (\<lambda>(x, y).
           bind_err (np_divide_scalar (map_array (\<lambda>v. real_of_int (v ^ 2)) x) (real_of_int n))
          (\<lambda>xx. bind_err (np_divide_scalar (map_array (\<lambda>v. real_of_int (v ^ 2)) y) (real_of_int m))
          (\<lambda>yy. bind_err (np_add xx yy) (\<lambda>e. k (map_array (\<lambda>v. exp (- v)) e)))))
         = k (gaussian_grid n m)"
  using assms
  by (simp add: np_mgrid_symmetric map_array_tabulate2 np_divide_scalar_nonzero bind_err_def
        np_add_def zip_array_tabulate2 gaussian_grid_def)

lemma set_data_tabulate2: "x \<in> set (data (tabulate2 r c f)) \<Longrightarrow> \<exists>i j. x = f i j"
  by (auto simp: tabulate2_def)

lemma gaussian_grid_positive: "\<forall>x \<in> set (data (gaussian_grid n m)). 0 < x"
proof
  fix x assume "x \<in> set (data (gaussian_grid n m))"
  then have "\<exists>i j. x = (\<lambda>i j. exp (- ((real_of_int (int i - n))\<^sup>2 / real_of_int n
                       + (real_of_int (int j - m))\<^sup>2 / real_of_int m))) i j"
    unfolding gaussian_grid_def by (rule set_data_tabulate2)
  then show "0 < x" by auto
qed

lemma gaussian_grid_nonempty: "1 \<le> n \<Longrightarrow> 1 \<le> m \<Longrightarrow> data (gaussian_grid n m) \<noteq> []"
proof -
  assume "1 \<le> n" "1 \<le> m"
  then have "0 < nat (2 * n + 1) * nat (2 * m + 1)" by simp
  then have "0 < length (data (gaussian_grid n m))" by (simp add: gaussian_grid_def)
  then show ?thesis by blast
qed

lemma gaussian_kernel_on_grid:
  assumes "n = py_int sz"
    and "m = (case size_y of None \<Rightarrow> n | Some v \<Rightarrow> if v = 0 then n else py_int v)"
    and "1 \<le> n" "1 \<le> m"
  shows "gaussian_kernel E sz size_y =
           bind_err (aperture_photometry E (gaussian_grid n m)
                       (CircularAperture E (frame_center E (gaussian_grid n m)) (real_of_int n / 2)))
             (\<lambda>aperture_sum. bind_err (np_divide_scalar (gaussian_grid n m) aperture_sum)
             (\<lambda>g_norm. bind_err (np_max g_norm)
             (\<lambda>peak. np_divide_scalar g_norm peak)))"
proof -
  have "gaussian_kernel E sz size_y =
        bind_err (np_mgrid (- n) (n + 1) (- m) (m + 1))
          (\<lambda>(x, y).
           bind_err (np_divide_scalar (map_array (\<lambda>v. real_of_int (v ^ 2)) x) (real_of_int n))
          (\<lambda>xx. bind_err (np_divide_scalar (map_array (\<lambda>v. real_of_int (v ^ 2)) y) (real_of_int m))
          (\<lambda>yy. bind_err (np_add xx yy)
          (\<lambda>e. (\<lambda>g. bind_err (aperture_photometry E g
                       (CircularAperture E (frame_center E g) (real_of_int n / 2)))
             (\<lambda>aperture_sum. bind_err (np_divide_scalar g aperture_sum)
             (\<lambda>g_norm. bind_err (np_max g_norm)
             (\<lambda>peak. np_divide_scalar g_norm peak)))) (map_array (\<lambda>v. exp (- v)) e)))))"
    unfolding gaussian_kernel_def Let_def assms(1,2) [symmetric] by simp
  also have "\<dots> = (\<lambda>g. bind_err (aperture_photometry E g
                       (CircularAperture E (frame_center E g) (real_of_int n / 2)))
             (\<lambda>aperture_sum. bind_err (np_divide_scalar g aperture_sum)
             (\<lambda>g_norm. bind_err (np_max g_norm)
             (\<lambda>peak. np_divide_scalar g_norm peak)))) (gaussian_grid n m)"
    using assms(3,4) by (rule gaussian_kernel_steps)
  finally show ?thesis by simp
qed

lemma gaussian_grid_le_one:
  assumes "1 \<le> n" "1 \<le> m"
  shows "\<forall>x \<in> set (data (gaussian_grid n m)). x \<le> 1"
proof
  fix x assume "x \<in> set (data (gaussian_grid n m))"
  then have "\<exists>i j. x = (\<lambda>i j. exp (- ((real_of_int (int i - n))\<^sup>2 / real_of_int n
                       + (real_of_int (int j - m))\<^sup>2 / real_of_int m))) i j"
    unfolding gaussian_grid_def by (rule set_data_tabulate2)
  then obtain i j where x: "x = exp (- ((real_of_int (int i - n))\<^sup>2 / real_of_int n
                       + (real_of_int (int j - m))\<^sup>2 / real_of_int m))"
    by blast
  have "0 \<le> (real_of_int (int i - n))\<^sup>2 / real_of_int n" using assms(1) by simp
  moreover have "0 \<le> (real_of_int (int j - m))\<^sup>2 / real_of_int m" using assms(2) by simp
  ultimately show "x \<le> 1" unfolding x by simp
qed

lemma gaussian_grid_centre:
  assumes "1 \<le> n" "1 \<le> m"
  shows "data (gaussian_grid n m) ! (nat n * nat (2 * m + 1) + nat m) = 1"
proof -
  have "nat n < nat (2 * n + 1)" "nat m < nat (2 * m + 1)" using assms by simp_all
  then have "data (gaussian_grid n m) ! (nat n * nat (2 * m + 1) + nat m)
      = exp (- ((real_of_int (int (nat n) - n))\<^sup>2 / real_of_int n
                       + (real_of_int (int (nat m) - m))\<^sup>2 / real_of_int m))"
    unfolding gaussian_grid_def by (rule nth_data_tabulate2)
  then show ?thesis using assms by simp
qed

lemma gaussian_grid_Max:
  assumes "1 \<le> n" "1 \<le> m"
  shows "Max (set (data (gaussian_grid n m))) = 1"
proof (rule Max_eqI)
  show "finite (set (data (gaussian_grid n m)))" by simp
  show "y \<le> 1" if "y \<in> set (data (gaussian_grid n m))" for y
    using gaussian_grid_le_one [OF assms] that by blast
  have "nat n < nat (2 * n + 1)" "nat m < nat (2 * m + 1)" using assms by simp_all
  then have "nat n * nat (2 * m + 1) + nat m < length (data (gaussian_grid n m))"
    unfolding gaussian_grid_def length_data_tabulate2 by (rule index_in_range)
  then have "data (gaussian_grid n m) ! (nat n * nat (2 * m + 1) + nat m)
             \<in> set (data (gaussian_grid n m))"
    by (rule nth_mem)
  then show "1 \<in> set (data (gaussian_grid n m))"
    by (simp only: gaussian_grid_centre [OF assms])
qed

text \<open>
  With a positive flux the two normalisations cancel: the peak of the flux-normalised grid
  is \<open>1 / flux\<close>, and the kernel returned has the value 1 at its centre and nothing above.
\<close>

lemma gaussian_kernel_positive_flux:
  assumes "1 \<le> sz"
    and "size_y = None \<or> size_y = Some 0 \<or> (\<exists>v. size_y = Some v \<and> 1 \<le> v)"
    and "n = py_int sz"
    and "m = (case size_y of None \<Rightarrow> n | Some v \<Rightarrow> if v = 0 then n else py_int v)"
    and "aperture_photometry E (gaussian_grid n m)
           (CircularAperture E (frame_center E (gaussian_grid n m)) (real_of_int n / 2)) = Inr flux"
    and "0 < flux"
  shows "\<exists>K. gaussian_kernel E sz size_y = Inr K
           \<and> shape K = [nat (2 * n + 1), nat (2 * m + 1)]
           \<and> length (data K) = nat (2 * n + 1) * nat (2 * m + 1)
           \<and> (\<forall>i<nat (2 * n + 1). \<forall>j<nat (2 * m + 1).
                data K ! (i * nat (2 * m + 1) + j)
                  = exp (- ((real_of_int (int i - n))\<^sup>2 / real_of_int n
                            + (real_of_int (int j - m))\<^sup>2 / real_of_int m))
                    / flux / (1 / flux))
           \<and> data K ! (nat n * nat (2 * m + 1) + nat m) = 1
           \<and> (\<forall>v \<in> set (data K). v \<le> 1)"
proof -
  let ?G = "gaussian_grid n m"
  let ?N = "map_array (\<lambda>v. v / flux) ?G"
  let ?K = "map_array (\<lambda>v. v / flux / (1 / flux)) ?G"
  have n1: "1 \<le> n" using assms(1,3) by (simp add: py_int_def le_floor_iff)
  have m1: "1 \<le> m"
    using assms(2,4) n1 by (auto simp: py_int_def le_floor_iff)
  have ne: "data ?G \<noteq> []" using n1 m1 by (rule gaussian_grid_nonempty)
  have "np_max ?N = Inr (Max (set (data ?G)) / flux)"
    using ne assms(6) by (rule np_max_scale)
  then have max_N: "np_max ?N = Inr (1 / flux)"
    by (simp only: gaussian_grid_Max [OF n1 m1])
  have run: "gaussian_kernel E sz size_y = Inr ?K"
    using assms(6)
    by (simp add: gaussian_kernel_on_grid [OF assms(3,4) n1 m1] assms(5) bind_err_def
          np_divide_scalar_nonzero max_N map_array_map_array)
  have same: "?K = ?G"
    using assms(6) by (cases ?G) (simp add: map_array_def)
  have el: "\<forall>i<nat (2 * n + 1). \<forall>j<nat (2 * m + 1).
                data ?K ! (i * nat (2 * m + 1) + j)
                  = exp (- ((real_of_int (int i - n))\<^sup>2 / real_of_int n
                            + (real_of_int (int j - m))\<^sup>2 / real_of_int m))
                    / flux / (1 / flux)"
    using assms(6)
    by (simp add: gaussian_grid_def map_array_tabulate2 nth_data_tabulate2)
  have "shape ?K = [nat (2 * n + 1), nat (2 * m + 1)]"
       "length (data ?K) = nat (2 * n + 1) * nat (2 * m + 1)"
    by (simp_all add: gaussian_grid_def map_array_tabulate2)
  moreover have "data ?K ! (nat n * nat (2 * m + 1) + nat m) = 1"
    unfolding same by (rule gaussian_grid_centre [OF n1 m1])
  moreover have "\<forall>v \<in> set (data ?K). v \<le> 1"
    unfolding same by (rule gaussian_grid_le_one [OF n1 m1])
  ultimately show ?thesis using run el by blast
qed

text \<open>
  On the instance the aperture of \<open>gaussian_kernel(1, 3)\<close> lies off the frame. The grid has
  3 rows and 7 columns and its centre is (1, 3), row first; read as \<open>(x, y)\<close> this is column
  1 and row 3, one row below the last, so no pixel is within the radius 1/2 and the flux
  is 0.
\<close>

lemma center_photometry_off_frame:
  "center_photometry (gaussian_grid 1 3) ((1, 3), 1 / 2) = Inr 0"
proof -
  have "(if (real j - 1)\<^sup>2 + (real i - 3)\<^sup>2 \<le> (1 / 2)\<^sup>2
         then item2 7 (data (gaussian_grid 1 3)) i j else 0) = 0" if "i < 3" for i j
  proof -
    have "real i \<le> 2" using that by simp
    then have "1 \<le> (real i - 3)\<^sup>2"
      by (smt (verit) one_le_power one_power2 power2_minus)
    moreover have "0 \<le> (real j - 1)\<^sup>2" by simp
    moreover have "(1 / 2 :: real)\<^sup>2 = 1 / 4" by (simp add: power2_eq_square)
    ultimately have "\<not> (real j - 1)\<^sup>2 + (real i - 3)\<^sup>2 \<le> (1 / 2)\<^sup>2"
      by linarith
    then show ?thesis by simp
  qed
  then have "(\<Sum>i<3. \<Sum>j<7. if (real j - 1)\<^sup>2 + (real i - 3)\<^sup>2 \<le> (1 / 2)\<^sup>2
         then item2 7 (data (gaussian_grid 1 3)) i j else 0) = 0"
    by (intro sum.neutral ballI) simp
  moreover have "shape (gaussian_grid 1 3) = [3, 7]" by (simp add: gaussian_grid_def)
  ultimately show ?thesis by (simp add: center_photometry_def)
qed

lemma center_photometry_square:
  "center_photometry (gaussian_grid 1 1) ((1, 1), 1 / 2) = Inr 1"
proof -
  have sh: "shape (gaussian_grid 1 1) = [3, 3]" by (simp add: gaussian_grid_def)
  have c: "item2 3 (data (gaussian_grid 1 1)) 1 1 = 1"
    unfolding gaussian_grid_def by (simp add: item2_tabulate2)
  have c': "item2 (Suc (Suc (Suc 0))) (data (gaussian_grid 1 1)) (Suc 0) (Suc 0) = 1"
    using c by (simp add: eval_nat_numeral)
  show ?thesis
    by (simp add: center_photometry_def sh c' eval_nat_numeral power2_eq_square)
qed

lemma gaussian_kernel_square_instance:
  "\<exists>K. gaussian_kernel instance_lib 1 None = Inr K
       \<and> shape K = [3, 3]
       \<and> data K ! 4 = 1
       \<and> (\<forall>v \<in> set (data K). v \<le> 1)"
proof -
  have sz: "(1 :: real) \<le> 1" by simp
  have n: "1 = py_int 1" by (simp add: py_int_def)
  have m: "1 = (case None :: real option of None \<Rightarrow> 1 | Some v \<Rightarrow> if v = 0 then 1 else py_int v)"
    by simp
  have c: "frame_center instance_lib (gaussian_grid 1 1) = (1, 1)"
    by (simp add: instance_lib_def geometric_center_def gaussian_grid_def)
  have phot: "aperture_photometry instance_lib (gaussian_grid 1 1)
          (CircularAperture instance_lib (frame_center instance_lib (gaussian_grid 1 1)) (real_of_int 1 / 2))
        = Inr 1"
    unfolding c using center_photometry_square by (simp add: instance_lib_def)
  show ?thesis
    using gaussian_kernel_positive_flux [OF sz _ n m phot] by auto
qed

text \<open>
  C6 says that for every valid size the kernel is the grid of
  \<open>exp (- (x\<^sup>2 / size + y\<^sup>2 / size_y))\<close>, divided by the flux in the circular aperture of
  radius \<open>size / 2\<close> centred on the kernel and then by its peak, so that its maximum is
  exactly 1. The code does so when the flux is positive (\<open>gaussian_kernel_positive_flux\<close>),
  as for the square kernel of size 1 (\<open>gaussian_kernel_square_instance\<close>). It does not at
  \<open>gaussian_kernel(1, 3)\<close>: the centre of the 3 x 7 grid is handed to the aperture row
  first and read column first, the aperture lies off the frame, the flux is 0 and the
  division by it leaves no finite value, hence no maximum equal to 1.
\<close>

theorem C6_gaussian_kernel_not_finite:
  "gaussian_kernel instance_lib 1 (Some 3) = Inl NonFinite"
proof -
  have n: "1 = py_int 1" and m: "3 = (case Some (3 :: real) of None \<Rightarrow> 1 | Some v \<Rightarrow> if v = 0 then 1 else py_int v)"
    by (simp_all add: py_int_def)
  have c: "frame_center instance_lib (gaussian_grid 1 3) = (1, 3)"
    by (simp add: instance_lib_def geometric_center_def gaussian_grid_def)
  have "aperture_photometry instance_lib (gaussian_grid 1 3)
          (CircularAperture instance_lib (frame_center instance_lib (gaussian_grid 1 3)) (real_of_int 1 / 2))
        = Inr 0"
    unfolding c using center_photometry_off_frame by (simp add: instance_lib_def)
  moreover have "data (gaussian_grid 1 3) \<noteq> []"
    by (rule gaussian_grid_nonempty) simp_all
  ultimately show ?thesis
    by (simp add: gaussian_kernel_on_grid [OF n m] bind_err_def np_divide_scalar_def)
qed

subsection \<open>C7: the Gaussian filter in mode \<open>conv\<close>\<close>

lemma exp_lower_Taylor:
  fixes x :: real
  assumes "0 \<le> x"
  shows "(\<Sum>m<n. x ^ m / fact m) \<le> exp x"
proof -
  obtain t where "exp x = (\<Sum>m<n. x ^ m / fact m) + (exp t / fact n) * x ^ n"
    using Maclaurin_exp_le [of x n] by blast
  moreover have "0 \<le> (exp t / fact n) * x ^ n" using assms by simp
  ultimately show ?thesis by linarith
qed

lemma exp_upper_Taylor:
  fixes x :: real
  assumes "0 \<le> x" "x \<le> 1"
  shows "exp x \<le> (\<Sum>m<n. x ^ m / fact m) + (3 / fact n) * x ^ n"
proof -
  obtain t where t: "\<bar>t\<bar> \<le> \<bar>x\<bar>" "exp x = (\<Sum>m<n. x ^ m / fact m) + (exp t / fact n) * x ^ n"
    using Maclaurin_exp_le [of x n] by blast
  have "t \<le> 1" using t(1) assms by linarith
  then have "exp t \<le> exp 1" by simp
  then have "exp t \<le> 3" using exp_le by linarith
  then have "exp t / fact n \<le> 3 / fact n" by (simp add: divide_right_mono)
  then have "(exp t / fact n) * x ^ n \<le> (3 / fact n) * x ^ n"
    using assms by (intro mult_right_mono) simp_all
  then show ?thesis using t(2) by linarith
qed

lemma ln2_lower: "69313 / 100000 < ln (2 :: real)"
proof -
  have "exp (69313 / 100000 :: real) \<le> (\<Sum>m<10. (69313 / 100000) ^ m / fact m) + (3 / fact 10) * (69313 / 100000) ^ 10"
    by (rule exp_upper_Taylor) simp_all
  also have "\<dots> < 2"
    by (simp add: eval_nat_numeral)
  finally have "exp (69313 / 100000 :: real) < exp (ln 2)" by simp
  then show ?thesis by (simp only: exp_less_cancel_iff)
qed

lemma ln2_upper: "ln (2 :: real) < 69315 / 100000"
proof -
  have "(2 :: real) < (\<Sum>m<10. (69315 / 100000) ^ m / fact m)"
    by (simp add: eval_nat_numeral)
  also have "\<dots> \<le> exp (69315 / 100000)"
    by (rule exp_lower_Taylor) simp
  finally have "exp (ln 2) < exp (69315 / 100000 :: real)" by simp
  then show ?thesis by (simp only: exp_less_cancel_iff)
qed

lemma gaussian_fwhm_to_sigma_bounds:
  "42465 / 100000 < gaussian_fwhm_to_sigma" "gaussian_fwhm_to_sigma < 42467 / 100000"
proof -
  have lo: "(117739 / 100000) ^ 2 < 2 * ln (2 :: real)"
    using ln2_lower by (simp add: power2_eq_square)
  have hi: "2 * ln (2 :: real) < (117742 / 100000) ^ 2"
    using ln2_upper by (simp add: power2_eq_square)
  have s_lo: "117739 / 100000 < sqrt (2 * ln 2)"
    using lo by (intro real_less_rsqrt)
  have s_hi: "sqrt (2 * ln 2) < 117742 / 100000"
    using hi by (intro real_less_lsqrt) simp_all
  have pos: "0 < 2 * sqrt (2 * ln 2)" using s_lo by simp
  show "42465 / 100000 < gaussian_fwhm_to_sigma"
    unfolding gaussian_fwhm_to_sigma_def using s_hi pos by (simp add: field_simps)
  show "gaussian_fwhm_to_sigma < 42467 / 100000"
    unfolding gaussian_fwhm_to_sigma_def using s_lo pos by (simp add: field_simps)
qed

text \<open>
  C7: for a 2-D array, mode \<open>conv\<close> applies the library's Gaussian filter with standard
  deviation \<open>size_fwhm\<close> times the FWHM-to-sigma factor, order 0 and \<open>nearest\<close> boundary
  extension; the factor is 0.42466 up to 0.00001. A mode other than \<open>conv\<close> and \<open>convfft\<close>
  raises the unrecognised-mode error.
\<close>

theorem C7_gaussian_conv:
  "(ndim array = 2 \<longrightarrow>
      frame_filter_gaussian2d E array size_fwhm ''conv''
        = gaussian_filter E array (size_fwhm * gaussian_fwhm_to_sigma) 0 ''nearest'')
   \<and> \<bar>gaussian_fwhm_to_sigma - 42466 / 100000\<bar> < 1 / 100000
   \<and> (ndim array = 2 \<and> mode \<noteq> ''conv'' \<and> mode \<noteq> ''convfft'' \<longrightarrow>
      frame_filter_gaussian2d E array size_fwhm mode = Inl (TypeError ''Mode not recognized''))"
proof -
  have "\<bar>gaussian_fwhm_to_sigma - 42466 / 100000\<bar> < 1 / 100000"
    using gaussian_fwhm_to_sigma_bounds by linarith
  then show ?thesis by (simp add: frame_filter_gaussian2d_def)
qed

theorem C7_gaussian_conv_witness:
  "ndim (NDArray [1, 2] [5, 6 :: real]) = 2
   \<and> frame_filter_gaussian2d instance_lib (NDArray [1, 2] [5, 6]) 3 ''conv''
       = gaussian_filter instance_lib (NDArray [1, 2] [5, 6]) (3 * gaussian_fwhm_to_sigma) 0 ''nearest''
   \<and> ''bogus'' \<noteq> ''conv'' \<and> ''bogus'' \<noteq> ''convfft''
   \<and> frame_filter_gaussian2d instance_lib (NDArray [1, 2] [5, 6]) 3 ''bogus''
       = Inl (TypeError ''Mode not recognized'')"
  using C7_gaussian_conv [of "NDArray [1, 2] [5, 6]" instance_lib 3 "''bogus''"]
  by (simp add: ndim_def)

subsection \<open>C8: no mutation of the caller's arrays\<close>

lemma keeps_unit_action: "keeps (unit_action x)"
  by (simp add: keeps_def unit_action_def)

lemma keeps_raise_action: "keeps (raise_action e)"
  by (simp add: keeps_def raise_action_def)

lemma allocates_raise_action: "allocates (raise_action e)"
  by (simp add: allocates_def raise_action_def)

lemma keeps_read_attr: "keeps (read_attr attr a)"
  by (auto simp: keeps_def read_attr_def split: option.splits)

lemma allocates_keeps: "allocates p \<Longrightarrow> keeps p"
  by (simp add: allocates_def keeps_def)

lemma keeps_then_action:
  assumes "keeps p" "\<And>x. keeps (f x)"
  shows "keeps (then_action p f)"
  unfolding keeps_def
proof (intro allI impI ballI)
  fix h h' r a
  assume run: "then_action p f h = (h', r)" and a: "a \<in> dom h"
  obtain h1 r1 where p: "p h = (h1, r1)" by (cases "p h")
  have h1: "h1 a = h a" using assms(1) p a by (auto simp: keeps_def)
  show "h' a = h a"
  proof (cases r1)
    case (Inl e)
    then show ?thesis using run p h1 by (simp add: then_action_def)
  next
    case (Inr x)
    then have fx: "f x h1 = (h', r)" using run p by (simp add: then_action_def)
    have "a \<in> dom h1" using a h1 by (auto simp: dom_def)
    then have "h' a = h1 a" using assms(2) [of x] fx by (auto simp: keeps_def)
    then show ?thesis using h1 by simp
  qed
qed

lemma allocates_then_action:
  assumes "keeps p" "\<And>x. allocates (f x)"
  shows "allocates (then_action p f)"
  unfolding allocates_def
proof (intro allI impI conjI ballI)
  fix h h' r
  assume run: "then_action p f h = (h', r)"
  have k: "keeps (then_action p f)"
    using assms by (intro keeps_then_action allocates_keeps)
  show "h' a = h a" if "a \<in> dom h" for a
    using k run that by (auto simp: keeps_def)
  fix b assume r: "r = Inr b"
  obtain h1 r1 where p: "p h = (h1, r1)" by (cases "p h")
  have sub: "dom h \<subseteq> dom h1"
  proof
    fix a assume a: "a \<in> dom h"
    have "h1 a = h a" using assms(1) p a unfolding keeps_def by blast
    then show "a \<in> dom h1" using a by (simp add: dom_def)
  qed
  obtain x where x: "r1 = Inr x" "f x h1 = (h', r)"
    using run p r by (cases r1) (simp_all add: then_action_def)
  have "b \<notin> dom h1 \<and> b \<in> dom h'" using assms(2) [of x] x(2) r by (auto simp: allocates_def)
  then show "b \<notin> dom h" "b \<in> dom h'" using sub by auto
qed

lemma keeps_map_action:
  assumes "\<And>x. keeps (f x)"
  shows "keeps (map_action f xs)"
  by (induction xs) (simp_all add: keeps_unit_action keeps_then_action assms)

lemma allocates_all_map_action:
  assumes "\<And>x. allocates (f x)"
  shows "allocates_all (map_action f xs)"
proof (induction xs)
  case Nil
  show ?case by (simp add: allocates_all_def unit_action_def)
next
  case (Cons x xs)
  show ?case
    unfolding allocates_all_def
  proof (intro allI impI conjI ballI)
    fix h h' r
    assume run: "map_action f (x # xs) h = (h', r)"
    have k: "keeps (map_action f (x # xs))"
      using assms by (intro keeps_map_action allocates_keeps)
    show "h' a = h a" if "a \<in> dom h" for a
      using k run that by (auto simp: keeps_def)
    fix bs b assume r: "r = Inr bs" and b: "b \<in> set bs"
    obtain h1 r1 where p: "f x h = (h1, r1)" by (cases "f x h")
    obtain y where y: "r1 = Inr y"
      using run p r by (cases r1) (simp_all add: then_action_def)
    have y_new: "y \<notin> dom h" "y \<in> dom h1" and keep1: "\<forall>a \<in> dom h. h1 a = h a"
      using assms [of x] p y by (auto simp: allocates_def)
    obtain r2 where q: "map_action f xs h1 = (h', r2)"
      using run p y r by (cases "map_action f xs h1") (auto simp: then_action_def unit_action_def split: sum.splits)
    obtain ys where ys: "r2 = Inr ys" "bs = y # ys"
      using run p y r q by (cases r2) (auto simp: then_action_def unit_action_def)
    have ys_new: "\<forall>c \<in> set ys. c \<notin> dom h1 \<and> c \<in> dom h'" and keep2: "\<forall>a \<in> dom h1. h' a = h1 a"
      using Cons.IH q ys(1) by (auto simp: allocates_all_def)
    have sub: "dom h \<subseteq> dom h1"
    proof
      fix a assume a: "a \<in> dom h"
      then have "h1 a = h a" using keep1 by blast
      then show "a \<in> dom h1" using a by (simp add: dom_def)
    qed
    have "y \<in> dom h'"
    proof -
      have "h' y = h1 y" using keep2 y_new(2) by blast
      then show ?thesis using y_new(2) by (simp add: dom_def)
    qed
    moreover have "b = y \<or> b \<in> set ys" using b ys(2) by auto
    moreover have "c \<notin> dom h \<and> c \<in> dom h'" if "c \<in> set ys" for c
      using ys_new sub that by blast
    ultimately show "b \<notin> dom h" "b \<in> dom h'"
      using y_new(1) by blast+
  qed
qed

lemma allocates_then_rebuild:
  assumes "allocates_all p" "\<And>xs. rebuilds xs (f xs)"
  shows "allocates (then_action p f)"
  unfolding allocates_def
proof (intro allI impI conjI ballI)
  fix h h' r
  assume run: "then_action p f h = (h', r)"
  obtain h1 r1 where p: "p h = (h1, r1)" by (cases "p h")
  have keep1: "\<forall>a \<in> dom h. h1 a = h a"
    using assms(1) p by (auto simp: allocates_all_def)
  have sub: "dom h \<subseteq> dom h1"
  proof
    fix a assume a: "a \<in> dom h"
    then have "h1 a = h a" using keep1 by blast
    then show "a \<in> dom h1" using a by (simp add: dom_def)
  qed
  show "h' a = h a" if a: "a \<in> dom h" for a
  proof (cases r1)
    case (Inl e)
    then show ?thesis using run p keep1 a by (simp add: then_action_def)
  next
    case (Inr xs)
    then have "f xs h1 = (h', r)" using run p by (simp add: then_action_def)
    then have "\<forall>a \<in> dom h1. h' a = h1 a" using assms(2) [of xs] by (auto simp: rebuilds_def)
    moreover have "a \<in> dom h1" using sub a by blast
    ultimately have "h' a = h1 a" by blast
    moreover have "h1 a = h a" using keep1 a by blast
    ultimately show ?thesis by simp
  qed
  fix b assume r: "r = Inr b"
  obtain xs where xs: "r1 = Inr xs" "f xs h1 = (h', r)"
    using run p r by (cases r1) (simp_all add: then_action_def)
  have new: "\<forall>c \<in> set xs. c \<notin> dom h \<and> c \<in> dom h1"
    using assms(1) p xs(1) by (auto simp: allocates_all_def)
  have keep2: "\<forall>a \<in> dom h1. h' a = h1 a"
    and res: "(b \<notin> dom h1 \<and> b \<in> dom h') \<or> b \<in> set xs"
    using assms(2) [of xs] xs(2) r by (auto simp: rebuilds_def)
  have "b \<in> dom h'" if "b \<in> set xs"
  proof -
    have "b \<in> dom h1" using new that by blast
    moreover from this have "h' b = h1 b" using keep2 by blast
    ultimately show ?thesis by (simp add: dom_def)
  qed
  moreover have "b \<notin> dom h" if "b \<notin> dom h1" using sub that by blast
  ultimately show "b \<notin> dom h" "b \<in> dom h'"
    using res new by blast+
qed

lemma nonmutating_steps:
  assumes "nonmutating P"
  shows "allocates (np_create P name ns)"
    and "allocates (np_unary P name a)"
    and "allocates (np_binary P name a b)"
    and "allocates (np_scalar P name a x)"
    and "keeps (np_reduce P name a)"
    and "allocates (st_convolve_fft P a k)"
    and "allocates (st_median_filter P a n mode)"
    and "allocates (st_gaussian_filter P a sigma order mode)"
    and "allocates (st_Gaussian2DKernel P stddev)"
    and "keeps (st_wavedec2 P a w levels)"
    and "allocates (st_thresholding_hard P a t)"
    and "allocates (st_thresholding_soft P a t)"
    and "rebuilds coeffs (st_waverec2 P coeffs w)"
    and "keeps (st_frame_center P a)"
    and "keeps (st_aperture_photometry P a c r)"
  using assms unfolding nonmutating_def by (simp_all del: split_paired_All)

lemma allocates_st_fft: "nonmutating P \<Longrightarrow> allocates (st_fft P a)"
  unfolding st_fft_def
  by (intro allocates_then_action) (simp_all add: nonmutating_steps allocates_keeps)

lemma allocates_st_ifft: "nonmutating P \<Longrightarrow> allocates (st_ifft P a)"
  unfolding st_ifft_def
  by (intro allocates_then_action) (simp_all add: nonmutating_steps allocates_keeps)

lemma allocates_st_frame_filter_gaussian2d:
  assumes "nonmutating P"
  shows "allocates (st_frame_filter_gaussian2d P array size_fwhm mode)"
  unfolding st_frame_filter_gaussian2d_def
proof (rule allocates_then_action [OF keeps_read_attr])
  fix nd :: nat
  have "allocates (then_action (st_Gaussian2DKernel P (size_fwhm * gaussian_fwhm_to_sigma))
              (\<lambda>gaus. st_convolve_fft P array gaus))"
    using assms by (intro allocates_then_action) (simp_all add: nonmutating_steps allocates_keeps)
  moreover have "allocates (st_gaussian_filter P array (size_fwhm * gaussian_fwhm_to_sigma) 0 ''nearest'')"
    using assms by (simp add: nonmutating_steps)
  ultimately show "allocates
          (if \<not> nd = 2 then raise_action (TypeError ''Input array is not a frame or 2d array'')
          else if mode = ''conv'' then
            st_gaussian_filter P array (size_fwhm * gaussian_fwhm_to_sigma) 0 ''nearest''
          else if mode = ''convfft'' then
            then_action (st_Gaussian2DKernel P (size_fwhm * gaussian_fwhm_to_sigma))
              (\<lambda>gaus. st_convolve_fft P array gaus)
          else raise_action (TypeError ''Mode not recognized''))"
    by (simp add: allocates_raise_action)
qed

lemma allocates_st_frame_filter_highpass:
  assumes "nonmutating P"
  shows "allocates (st_frame_filter_highpass P array mode median_size kernel_size fwhm_size)"
  unfolding st_frame_filter_highpass_def
proof (rule allocates_then_action [OF keeps_read_attr])
  fix nd :: nat
  have conv: "allocates (then_action (np_create P ''kernel3'' [])
              (\<lambda>k3. then_action (np_create P ''kernel5'' [])
              (\<lambda>k5. case (if kernel_size = 3 then Some k3
                           else if kernel_size = 5 then Some k5
                           else None) of
                        None \<Rightarrow> raise_action (UnboundLocalError ''kernel'')
                      | Some k \<Rightarrow> st_convolve_fft P array k)))"
    using assms
    by (intro allocates_then_action)
       (simp_all add: nonmutating_steps allocates_keeps allocates_raise_action)
  have med: "allocates (then_action (st_median_filter P array median_size ''nearest'')
              (\<lambda>medianed. np_binary P ''subtract'' array medianed))"
    using assms by (intro allocates_then_action) (simp_all add: nonmutating_steps allocates_keeps)
  have gau: "allocates (then_action (st_frame_filter_gaussian2d P array fwhm_size ''conv'')
              (\<lambda>gaussed. np_binary P ''subtract'' array gaussed))"
    using assms
    by (intro allocates_then_action allocates_keeps allocates_st_frame_filter_gaussian2d)
       (simp_all add: nonmutating_steps allocates_keeps)
  have but: "allocates (then_action (read_attr (obj_shape P) array)
              (\<lambda>sh. case sh of
                       [rows, cols] \<Rightarrow>
                         then_action (np_create P ''filt'' [int rows, int cols])
                           (\<lambda>filt. then_action (st_fft P array)
                           (\<lambda>array_fft. then_action (np_binary P ''multiply'' array_fft filt)
                           (\<lambda>fft_new. st_ifft P fft_new)))
                     | _ \<Rightarrow> raise_action (ValueError ''wrong number of values to unpack'')))"
  proof (rule allocates_then_action [OF keeps_read_attr])
    fix sh :: "nat list"
    have "allocates (then_action (np_create P ''filt'' [int rows, int cols])
                           (\<lambda>filt. then_action (st_fft P array)
                           (\<lambda>array_fft. then_action (np_binary P ''multiply'' array_fft filt)
                           (\<lambda>fft_new. st_ifft P fft_new))))" for rows cols
      using assms
      by (intro allocates_then_action allocates_st_ifft)
         (simp_all add: nonmutating_steps allocates_keeps allocates_st_fft)
    then show "allocates (case sh of
                       [rows, cols] \<Rightarrow>
                         then_action (np_create P ''filt'' [int rows, int cols])
                           (\<lambda>filt. then_action (st_fft P array)
                           (\<lambda>array_fft. then_action (np_binary P ''multiply'' array_fft filt)
                           (\<lambda>fft_new. st_ifft P fft_new)))
                     | _ \<Rightarrow> raise_action (ValueError ''wrong number of values to unpack''))"
      by (simp add: allocates_raise_action split: list.splits)
  qed
  show "allocates
          (if \<not> nd = 2 then raise_action (TypeError ''Input array is not a frame or 2d array'')
          else if mode = ''kernel-conv'' then
            then_action (np_create P ''kernel3'' [])
              (\<lambda>k3. then_action (np_create P ''kernel5'' [])
              (\<lambda>k5. case (if kernel_size = 3 then Some k3
                           else if kernel_size = 5 then Some k5
                           else None) of
                        None \<Rightarrow> raise_action (UnboundLocalError ''kernel'')
                      | Some k \<Rightarrow> st_convolve_fft P array k))
          else if mode = ''median-subt'' then
            then_action (st_median_filter P array median_size ''nearest'')
              (\<lambda>medianed. np_binary P ''subtract'' array medianed)
          else if mode = ''gauss-subt'' then
            then_action (st_frame_filter_gaussian2d P array fwhm_size ''conv'')
              (\<lambda>gaussed. np_binary P ''subtract'' array gaussed)
          else if mode = ''fourier-butter'' then
            then_action (read_attr (obj_shape P) array)
              (\<lambda>sh. case sh of
                       [rows, cols] \<Rightarrow>
                         then_action (np_create P ''filt'' [int rows, int cols])
                           (\<lambda>filt. then_action (st_fft P array)
                           (\<lambda>array_fft. then_action (np_binary P ''multiply'' array_fft filt)
                           (\<lambda>fft_new. st_ifft P fft_new)))
                     | _ \<Rightarrow> raise_action (ValueError ''wrong number of values to unpack''))
          else raise_action (TypeError ''Mode not recognized''))"
    using conv med gau but by (simp add: allocates_raise_action)
qed

lemma allocates_st_wavelet_denoise:
  assumes "nonmutating P"
  shows "allocates (st_wavelet_denoise P array wavelet threshold levels thrmode)"
  unfolding st_wavelet_denoise_def
proof (rule allocates_then_action [OF keeps_read_attr])
  fix nd :: nat
  have hard: "allocates (then_action (map_action (\<lambda>x. st_thresholding_hard P x threshold) WC)
                     (\<lambda>NWC. st_waverec2 P NWC wavelet))" for WC
    using assms by (intro allocates_then_rebuild allocates_all_map_action) (simp_all add: nonmutating_steps)
  have soft: "allocates (then_action (map_action (\<lambda>x. st_thresholding_soft P x threshold) WC)
                     (\<lambda>NWC. st_waverec2 P NWC wavelet))" for WC
    using assms by (intro allocates_then_rebuild allocates_all_map_action) (simp_all add: nonmutating_steps)
  have "allocates (then_action (st_wavedec2 P array wavelet levels)
              (\<lambda>WC.
                 if thrmode = ''hard'' then
                   then_action (map_action (\<lambda>x. st_thresholding_hard P x threshold) WC)
                     (\<lambda>NWC. st_waverec2 P NWC wavelet)
                 else if thrmode = ''soft'' then
                   then_action (map_action (\<lambda>x. st_thresholding_soft P x threshold) WC)
                     (\<lambda>NWC. st_waverec2 P NWC wavelet)
                 else raise_action (ValueError ''Threshold mode not recognized'')))"
  proof (rule allocates_then_action)
    show "keeps (st_wavedec2 P array wavelet levels)" using assms by (simp add: nonmutating_steps)
  next
    fix WC
    show "allocates (if thrmode = ''hard'' then
                   then_action (map_action (\<lambda>x. st_thresholding_hard P x threshold) WC)
                     (\<lambda>NWC. st_waverec2 P NWC wavelet)
                 else if thrmode = ''soft'' then
                   then_action (map_action (\<lambda>x. st_thresholding_soft P x threshold) WC)
                     (\<lambda>NWC. st_waverec2 P NWC wavelet)
                 else raise_action (ValueError ''Threshold mode not recognized''))"
      using hard soft by (simp add: allocates_raise_action)
  qed
  then show "allocates
          (if \<not> nd = 2 then raise_action (TypeError ''Input array is not a frame or 2d array'')
          else
            then_action (st_wavedec2 P array wavelet levels)
              (\<lambda>WC.
                 if thrmode = ''hard'' then
                   then_action (map_action (\<lambda>x. st_thresholding_hard P x threshold) WC)
                     (\<lambda>NWC. st_waverec2 P NWC wavelet)
                 else if thrmode = ''soft'' then
                   then_action (map_action (\<lambda>x. st_thresholding_soft P x threshold) WC)
                     (\<lambda>NWC. st_waverec2 P NWC wavelet)
                 else raise_action (ValueError ''Threshold mode not recognized'')))"
    by (simp add: allocates_raise_action)
qed

lemma allocates_st_gaussian_kernel:
  assumes "nonmutating P"
  shows "allocates (st_gaussian_kernel P sz size_y)"
  unfolding st_gaussian_kernel_def Let_def
  using assms
  by (intro allocates_then_action) (simp_all add: nonmutating_steps allocates_keeps)


lemma allocates_new_object: "allocates (new_object v)"
  unfolding allocates_def
proof (intro allI impI)
  fix h h' :: "nat store" and r
  assume run: "new_object v h = (h', r)"
  show "(\<forall>a \<in> dom h. h' a = h a) \<and> (\<forall>b. r = Inr b \<longrightarrow> b \<notin> dom h \<and> b \<in> dom h')"
  proof (cases "finite (dom h)")
    case False
    then have "h' = h" "r = Inl (RuntimeError ''out of memory'')"
      using run by (simp_all add: new_object_def)
    then show ?thesis by simp
  next
    case True
    define b where "b = (if dom h = {} then 0 else Suc (Max (dom h)))"
    have fresh: "b \<notin> dom h"
    proof
      assume "b \<in> dom h"
      then have "b \<le> Max (dom h)" "dom h \<noteq> {}" using True by auto
      then show False by (simp add: b_def)
    qed
    have "h' = h(b \<mapsto> v)" "r = Inr b"
      using run True by (simp_all add: new_object_def b_def Let_def)
    then show ?thesis using fresh by auto
  qed
qed

lemma rebuilds_single:
  "rebuilds coeffs (case coeffs of
            [c] \<Rightarrow> unit_action c
          | _ \<Rightarrow> raise_action (ValueError ''Coefficient list too short or too long''))"
  by (auto simp: rebuilds_def unit_action_def raise_action_def split: list.splits)

lemma nonmutating_instance_steps: "nonmutating instance_steps"
  unfolding nonmutating_def instance_steps_def
  by (simp add: allocates_new_object keeps_unit_action keeps_raise_action rebuilds_single)

lemma run_median_subt:
  "st_frame_filter_highpass instance_steps 0 ''median-subt'' 3 5 5 [0 \<mapsto> 2]
     = ([0 \<mapsto> 2, 1 \<mapsto> 2, 2 \<mapsto> 2], Inr 2)"
  by (simp add: st_frame_filter_highpass_def instance_steps_def then_action_def read_attr_def
        new_object_def Let_def numeral_2_eq_2)

lemma run_wavelet_denoise:
  "st_wavelet_denoise instance_steps 0 () 1 0 ''hard'' [0 \<mapsto> 2]
     = ([0 \<mapsto> 2, 1 \<mapsto> 2], Inr 1)"
  by (simp add: st_wavelet_denoise_def instance_steps_def then_action_def read_attr_def
        new_object_def Let_def unit_action_def)

text \<open>
  C8: with libraries that do not mutate their arguments, no public operation does: a call
  of \<open>frame_filter_highpass\<close>, \<open>frame_filter_gaussian2d\<close>, \<open>wavelet_denoise\<close> or
  \<open>gaussian_kernel\<close> leaves every object of the caller's store, the input array among them,
  as it was, and the array it returns is at an address that was not in use before the call.
\<close>

theorem C8_no_mutation:
  assumes "nonmutating P"
  shows "allocates (st_frame_filter_highpass P array mode median_size kernel_size fwhm_size)
         \<and> allocates (st_frame_filter_gaussian2d P array size_fwhm gauss_mode)
         \<and> allocates (st_wavelet_denoise P array wavelet threshold levels thrmode)
         \<and> allocates (st_gaussian_kernel P sz size_y)"
  using assms
  by (simp add: allocates_st_frame_filter_highpass allocates_st_frame_filter_gaussian2d
        allocates_st_wavelet_denoise allocates_st_gaussian_kernel)

theorem C8_no_mutation_witness:
  "nonmutating instance_steps
   \<and> st_frame_filter_highpass instance_steps 0 ''median-subt'' 3 5 5 [0 \<mapsto> 2]
       = ([0 \<mapsto> 2, 1 \<mapsto> 2, 2 \<mapsto> 2], Inr 2)
   \<and> st_wavelet_denoise instance_steps 0 () 1 0 ''hard'' [0 \<mapsto> 2]
       = ([0 \<mapsto> 2, 1 \<mapsto> 2], Inr 1)
   \<and> allocates (st_frame_filter_highpass instance_steps 0 ''median-subt'' 3 5 5)
   \<and> allocates (st_wavelet_denoise instance_steps 0 () 1 0 ''hard'')"
  using C8_no_mutation [OF nonmutating_instance_steps, of 0 "''median-subt''" 3 5 5 3 "''conv''" "()" 1 0 "''hard''" 1 None]
        run_median_subt run_wavelet_denoise nonmutating_instance_steps
  by simp

subsection \<open>C9: kernel sizes other than 3 and 5\<close>

text \<open>
  C9: for a 2-D array and mode \<open>kernel-conv\<close> with a \<open>kernel_size\<close> other than 3 and 5, no
  filtered frame is produced and the unrecognised-mode error is not raised: the local
  \<open>kernel\<close> is unbound when the convolution reads it.
\<close>

theorem C9_kernel_unbound:
  assumes "ndim array = 2" "kernel_size \<noteq> 3" "kernel_size \<noteq> 5"
  shows "frame_filter_highpass E array ''kernel-conv'' median_size kernel_size fwhm_size
           = Inl (UnboundLocalError ''kernel'')
         \<and> (\<forall>filtered. frame_filter_highpass E array ''kernel-conv'' median_size kernel_size fwhm_size
                \<noteq> Inr filtered)
         \<and> frame_filter_highpass E array ''kernel-conv'' median_size kernel_size fwhm_size
              \<noteq> Inl (TypeError ''Mode not recognized'')"
  using assms by (simp add: frame_filter_highpass_def)

theorem C9_kernel_unbound_witness:
  "ndim (NDArray [1, 1] [1 :: real]) = 2 \<and> (4 :: int) \<noteq> 3 \<and> (4 :: int) \<noteq> 5
   \<and> frame_filter_highpass instance_lib (NDArray [1, 1] [1]) ''kernel-conv'' 5 4 5
        = Inl (UnboundLocalError ''kernel'')"
  using C9_kernel_unbound [of "NDArray [1, 1] [1]" 4 instance_lib 5 5]
  by (simp add: ndim_def)

subsection \<open>C10: a falsy \<open>size_y\<close>\<close>



end
